theory Spec2Isabelle
  imports Main
begin

section \<open>Python strings\<close>

text \<open>
  A Python \<open>str\<close> is a sequence of Unicode code points, and \<open>len\<close> counts code
  points. The bridge's strings are modelled as lists of code points, so that the
  replacement character U+FFFD and the zero width space U+200B are single characters,
  as they are in the program. ASCII literals are written through \<open>py\<close>.
\<close>

type_synonym pystr = "nat list"

definition py :: "string \<Rightarrow> pystr" where
  "py s = map of_char s"

text \<open>\<open>s.replace(c, new)\<close> for a one-character pattern \<open>c\<close>.\<close>

definition replace_char :: "nat \<Rightarrow> pystr \<Rightarrow> pystr \<Rightarrow> pystr" where
  "replace_char c new s = concat (map (\<lambda>x. if x = c then new else [x]) s)"

text \<open>
  \<open>s.replace(old, '')\<close> for a non-empty pattern: the occurrences are removed from left
  to right, without overlap.
\<close>

fun remove_sub :: "pystr \<Rightarrow> pystr \<Rightarrow> pystr" where
  "remove_sub old [] = []"
| "remove_sub old (c # cs) =
     (if old \<noteq> [] \<and> take (length old) (c # cs) = old
      then remove_sub old (drop (length old - 1) cs)
      else c # remove_sub old cs)"

text \<open>
  \<open>str.isspace\<close> on one code point, which is what \<open>str.strip()\<close> removes at both
  ends.
\<close>

definition py_isspace :: "nat \<Rightarrow> bool" where
  "py_isspace c \<longleftrightarrow>
     (9 \<le> c \<and> c \<le> 13) \<or> (28 \<le> c \<and> c \<le> 32) \<or> c = 133 \<or> c = 160 \<or> c = 5760 \<or>
     (8192 \<le> c \<and> c \<le> 8202) \<or> c = 8232 \<or> c = 8233 \<or> c = 8239 \<or> c = 8287 \<or>
     c = 12288"

definition strip :: "pystr \<Rightarrow> pystr" where
  "strip s = rev (dropWhile py_isspace (rev (dropWhile py_isspace s)))"

text \<open>\<open>s.strip('{}')\<close>, used by \<open>uuid.UUID\<close>.\<close>

definition strip_braces :: "pystr \<Rightarrow> pystr" where
  "strip_braces s =
     rev (dropWhile (\<lambda>c. c = 123 \<or> c = 125) (rev (dropWhile (\<lambda>c. c = 123 \<or> c = 125) s)))"

text \<open>
  \<open>str.lower()\<close>. The ASCII letters are folded; the names compared by the bridge are
  game account names, which are ASCII.
\<close>

definition lower_cp :: "nat \<Rightarrow> nat" where
  "lower_cp c = (if 65 \<le> c \<and> c \<le> 90 then c + 32 else c)"

definition lower :: "pystr \<Rightarrow> pystr" where
  "lower s = map lower_cp s"

text \<open>\<open>'{}'.format(x)\<close> for a value that may be \<open>None\<close>.\<close>

definition format_opt :: "pystr option \<Rightarrow> pystr" where
  "format_opt x = (case x of None \<Rightarrow> py ''None'' | Some s \<Rightarrow> s)"

subsection \<open>The sanitizers of the bridge\<close>

text \<open>\<open>remove_emoji\<close>: every code point of the five ranges of the pattern is removed.\<close>

definition is_emoji :: "nat \<Rightarrow> bool" where
  "is_emoji c \<longleftrightarrow>
     (0x1F600 \<le> c \<and> c \<le> 0x1F64F) \<or> (0x1F300 \<le> c \<and> c \<le> 0x1F5FF) \<or>
     (0x1F680 \<le> c \<and> c \<le> 0x1F6FF) \<or> (0x1F1E0 \<le> c \<and> c \<le> 0x1F1FF) \<or>
     (0x1F900 \<le> c \<and> c \<le> 0x1FAFF)"

definition remove_emoji :: "pystr \<Rightarrow> pystr" where
  "remove_emoji s = filter (\<lambda>c. \<not> is_emoji c) s"

text \<open>
  \<open>escape_markdown\<close>: the backslash (92) first, then the underscore (95), then the
  asterisk (42), as the source orders them.
\<close>

definition escape_markdown :: "pystr \<Rightarrow> pystr" where
  "escape_markdown s =
     replace_char 42 [92, 42] (replace_char 95 [92, 95] (replace_char 92 [92, 92] s))"

text \<open>
  \<open>s.encode('utf-8').decode('ascii', 'replace')\<close>: an ASCII character is kept, every
  byte of the UTF-8 form of any other character becomes U+FFFD (65533). A surrogate
  cannot be encoded: \<open>encode\<close> raises \<open>UnicodeEncodeError\<close>, here \<open>None\<close>.
\<close>

definition utf8_len :: "nat \<Rightarrow> nat" where
  "utf8_len c = (if c < 0x80 then 1 else if c < 0x800 then 2 else if c < 0x10000 then 3 else 4)"

definition is_surrogate :: "nat \<Rightarrow> bool" where
  "is_surrogate c \<longleftrightarrow> 0xD800 \<le> c \<and> c \<le> 0xDFFF"

definition ascii_replace :: "pystr \<Rightarrow> pystr option" where
  "ascii_replace s =
     (if list_ex is_surrogate s then None
      else Some (concat (map (\<lambda>c. if c < 0x80 then [c] else replicate (utf8_len c) 65533) s)))"

subsection \<open>\<open>str(uuid.UUID(s))\<close>\<close>

text \<open>
  \<open>uuid.UUID(hex)\<close> removes \<open>urn:\<close> and \<open>uuid:\<close>, strips braces, removes the dashes
  and wants 32 characters, which \<open>int(_, 16)\<close> reads; \<open>str\<close> prints the 128-bit value
  as 32 lower-case hexadecimal digits in groups of 8, 4, 4, 4 and 12. A string that is
  not 32 hexadecimal digits after the clean-up raises \<open>ValueError\<close>, here \<open>None\<close>
  (\<open>int\<close> also accepts a sign, a \<open>0x\<close> prefix, underscores and blanks; the identity
  service sends plain digits).
\<close>

definition is_hex :: "nat \<Rightarrow> bool" where
  "is_hex c \<longleftrightarrow> (48 \<le> c \<and> c \<le> 57) \<or> (65 \<le> c \<and> c \<le> 70) \<or> (97 \<le> c \<and> c \<le> 102)"

definition uuid_hex :: "pystr \<Rightarrow> pystr" where
  "uuid_hex s =
     filter (\<lambda>c. c \<noteq> 45) (strip_braces (remove_sub (py ''uuid:'') (remove_sub (py ''urn:'') s)))"

definition dashed :: "pystr \<Rightarrow> pystr" where
  "dashed h =
     take 8 h @ [45] @ take 4 (drop 8 h) @ [45] @ take 4 (drop 12 h) @ [45] @
     take 4 (drop 16 h) @ [45] @ drop 20 h"

definition uuid_str :: "pystr \<Rightarrow> pystr option" where
  "uuid_str s =
     (let h = uuid_hex s
      in if length h = 32 \<and> list_all is_hex h then Some (dashed (map lower_cp h)) else None)"

section \<open>The bidirectional map\<close>

text \<open>
  \<open>UUID_CACHE\<close>, \<open>PLAYER_LIST\<close> and \<open>PREVIOUS_PLAYER_LIST\<close> are \<open>bidict\<close>s from
  identifier to name. A bidict is its list of items in insertion order; its keys are
  distinct and so are its values.
\<close>

datatype error =
    ValueDuplicationError | KeyAndValueDuplicationError | KeyError | TypeError
  | ValueError | AttributeError | RequestException | DiscordException
  | UnicodeEncodeError | OSError

type_synonym bidict = "(pystr \<times> pystr) list"


definition bd_keys :: "bidict \<Rightarrow> pystr list" where
  "bd_keys b = map fst b"

definition bd_values :: "bidict \<Rightarrow> pystr list" where
  "bd_values b = map snd b"

text \<open>\<open>k in b\<close> and \<open>v in b.inv\<close>.\<close>

definition bd_mem :: "pystr \<Rightarrow> bidict \<Rightarrow> bool" where
  "bd_mem k b \<longleftrightarrow> k \<in> set (bd_keys b)"

definition bd_inv_mem :: "pystr \<Rightarrow> bidict \<Rightarrow> bool" where
  "bd_inv_mem v b \<longleftrightarrow> v \<in> set (bd_values b)"

text \<open>\<open>b[k]\<close> and \<open>b.inv[v]\<close>, \<open>None\<close> where Python raises \<open>KeyError\<close>.\<close>

definition bd_get :: "bidict \<Rightarrow> pystr \<Rightarrow> pystr option" where
  "bd_get b k = map_of b k"

definition bd_inv :: "bidict \<Rightarrow> bidict" where
  "bd_inv b = map prod.swap b"

definition bd_inv_get :: "bidict \<Rightarrow> pystr \<Rightarrow> pystr option" where
  "bd_inv_get b v = map_of (bd_inv b) v"

text \<open>
  \<open>b[k] = v\<close> under bidict's default duplication policy: an item that is there already
  is a no-op; a key that is there with another value is overwritten in place; a value
  that is there under another key raises \<open>ValueDuplicationError\<close>; a key and a value
  that are there in two different items raise \<open>KeyAndValueDuplicationError\<close>.
\<close>

definition bd_put :: "bidict \<Rightarrow> pystr \<Rightarrow> pystr \<Rightarrow> error + bidict" where
  "bd_put b k v =
     (case (map_of b k, map_of (bd_inv b) v) of
        (Some oldval, Some oldkey) \<Rightarrow>
          if oldkey = k then Inr b else Inl KeyAndValueDuplicationError
      | (Some oldval, None) \<Rightarrow> Inr (map (\<lambda>(k', v'). if k' = k then (k, v) else (k', v')) b)
      | (None, Some oldkey) \<Rightarrow> Inl ValueDuplicationError
      | (None, None) \<Rightarrow> Inr (b @ [(k, v)]))"

text \<open>\<open>b.inv[v] = k\<close>: the same assignment on the inverse view.\<close>

definition bd_inv_put :: "bidict \<Rightarrow> pystr \<Rightarrow> pystr \<Rightarrow> error + bidict" where
  "bd_inv_put b v k =
     (case bd_put (bd_inv b) v k of Inl e \<Rightarrow> Inl e | Inr b' \<Rightarrow> Inr (bd_inv b'))"

text \<open>\<open>del b[k]\<close>.\<close>

definition bd_del :: "bidict \<Rightarrow> pystr \<Rightarrow> error + bidict" where
  "bd_del b k = (if bd_mem k b then Inr (filter (\<lambda>(k', v'). k' \<noteq> k) b) else Inl KeyError)"

section \<open>The state of the bridge and its collaborators\<close>

text \<open>
  The module-level variables that the handlers share. Times are integers (microseconds,
  the resolution of \<open>datetime\<close>).
\<close>

record bridge_state =
  UUID_CACHE :: bidict
  WEBHOOKS :: "pystr list"
  BOT_USERNAME :: pystr
  NEXT_MESSAGE_TIME :: int
  PREVIOUS_MESSAGE :: pystr
  PLAYER_LIST :: bidict
  PREVIOUS_PLAYER_LIST :: bidict
  ACCEPT_JOIN_EVENTS :: bool

record config =
  es_enabled :: bool
  message_delay :: int

text \<open>
  \<open>requests.post\<close> returns the response whatever its status code is, and raises when
  the request itself fails (no connection, a timeout).
\<close>

datatype post_result = Response nat | Fails

text \<open>
  What the identity service and the delivery endpoints answer during one run of a
  handler: \<open>names_of\<close> is the list of the \<open>name\<close> fields of the name history of a
  dash-free identifier, \<open>id_of\<close> the \<open>id\<close> field for a name, each \<open>None\<close> when the
  request or the decoding of its answer raises; \<open>post\<close> is what posting to a webhook
  URL does.
\<close>

record env =
  names_of :: "pystr \<Rightarrow> pystr list option"
  id_of :: "pystr \<Rightarrow> pystr option"
  post :: "pystr \<Rightarrow> post_result"

text \<open>The JSON body of a webhook post: \<open>username\<close>, \<open>avatar_url\<close>, \<open>content\<close>, \<open>embeds\<close>
  (colour and title of each).\<close>

datatype payload = Payload "pystr option" pystr pystr "(nat \<times> pystr) list"

datatype reason = CONNECTED | DISCONNECTED | SEEN

text \<open>
  What a handler does to the outside, in order: a post to a webhook URL (attempted,
  whether or not it succeeds), the analytics calls \<open>el.log_connection\<close> (identifier,
  reason, count), \<open>el.log_chat_message\<close> (identifier, display name, message, unformatted
  message) and \<open>el.log_raw_message\<close> (the packet's position), and on the chat-platform
  side the deletion of the incoming message, a reply to its author, a notice in the
  channel, a send through a channel's webhook (webhook, user name, avatar, content),
  a chat packet written to the game and the run of a \<open>mc!\<close> command.
\<close>

datatype effect =
    Post pystr payload
  | LogConnection pystr reason "int option"
  | LogChatMessage "pystr option" pystr pystr pystr
  | LogRawMessage nat
  | DeleteMessage
  | Reply pystr
  | Notice pystr
  | WebhookSend nat pystr pystr pystr
  | WritePacket pystr
  | Command

datatype control = Continue | Return | Raise error

datatype outcome = Returned | Raised error

definition state_of :: "bridge_state \<times> effect list \<times> 'c \<Rightarrow> bridge_state" where
  "state_of r = fst r"

definition effects_of :: "bridge_state \<times> effect list \<times> 'c \<Rightarrow> effect list" where
  "effects_of r = fst (snd r)"

definition result_of :: "bridge_state \<times> effect list \<times> 'c \<Rightarrow> 'c" where
  "result_of r = snd (snd r)"

fun is_post :: "effect \<Rightarrow> bool" where
  "is_post (Post w p) = True"
| "is_post e = False"

definition avatar :: "pystr \<Rightarrow> pystr" where
  "avatar player_uuid = py ''https://visage.surgeplay.com/face/160/'' @ player_uuid"

section \<open>The identity cache\<close>

text \<open>
  \<open>mojang_response[-1]["name"]\<close> when the history has more than one entry, otherwise
  \<open>mojang_response[0]["name"]\<close>, which raises on an empty history.
\<close>

definition latest_name :: "pystr list \<Rightarrow> pystr option" where
  "latest_name mojang_response =
     (if length mojang_response > 1 then Some (last mojang_response)
      else case mojang_response of [] \<Rightarrow> None | n # _ \<Rightarrow> Some n)"

text \<open>
  \<open>mc_uuid_to_username\<close>: the cache and the value returned. Every exception of the
  look-up, the one of the assignment to the bidict included, is caught and logged, and
  the function then returns \<open>None\<close>.
\<close>

definition mc_uuid_to_username :: "env \<Rightarrow> bidict \<Rightarrow> pystr \<Rightarrow> bidict \<times> pystr option" where
  "mc_uuid_to_username ev cache uuid =
     (if \<not> bd_mem uuid cache then
        (case names_of ev (replace_char 45 [] uuid) of
           None \<Rightarrow> (cache, None)
         | Some mojang_response \<Rightarrow>
             (case latest_name mojang_response of
                None \<Rightarrow> (cache, None)
              | Some player_username \<Rightarrow>
                  (case bd_put cache uuid player_username of
                     Inl e \<Rightarrow> (cache, None)
                   | Inr cache' \<Rightarrow> (cache', Some player_username))))
      else (cache, bd_get cache uuid))"

text \<open>
  \<open>mc_username_to_uuid\<close>: the dashed form \<open>str(long_uuid)\<close> is stored, the string of the
  service, \<open>player_uuid\<close>, is returned.
\<close>

definition mc_username_to_uuid :: "env \<Rightarrow> bidict \<Rightarrow> pystr \<Rightarrow> bidict \<times> pystr option" where
  "mc_username_to_uuid ev cache username =
     (if \<not> bd_inv_mem username cache then
        (case id_of ev username of
           None \<Rightarrow> (cache, None)
         | Some player_uuid \<Rightarrow>
             (case uuid_str player_uuid of
                None \<Rightarrow> (cache, None)
              | Some long_uuid \<Rightarrow>
                  (case bd_inv_put cache username long_uuid of
                     Inl e \<Rightarrow> (cache, None)
                   | Inr cache' \<Rightarrow> (cache', Some player_uuid))))
      else (cache, bd_inv_get cache username))"

section \<open>The presence tracker\<close>

datatype action = AddPlayerAction pystr pystr | RemovePlayerAction pystr | OtherAction

definition join_payload :: "pystr \<Rightarrow> pystr \<Rightarrow> payload" where
  "join_payload username player_uuid =
     Payload (Some username) (avatar player_uuid) [] [(65280, py ''**Joined the game**'')]"

definition leave_payload :: "pystr option \<Rightarrow> pystr \<Rightarrow> payload" where
  "leave_payload username player_uuid =
     Payload username (avatar player_uuid) [] [(16711680, py ''**Left the game**'')]"

text \<open>
  \<open>for webhook in WEBHOOKS: post = requests.post(webhook, json=webhook_payload)\<close>: the
  posts attempted, and whether the loop ran to its end (\<open>False\<close>: a post raised).
\<close>

fun post_all :: "env \<Rightarrow> pystr list \<Rightarrow> payload \<Rightarrow> effect list \<times> bool" where
  "post_all ev [] p = ([], True)"
| "post_all ev (webhook # ws) p =
     (case post ev webhook of
        Fails \<Rightarrow> ([Post webhook p], False)
      | Response status \<Rightarrow>
          (case post_all ev ws p of (es, ok) \<Rightarrow> (Post webhook p # es, ok)))"

text \<open>
  The analytics entries for the players of the previous list who are not in the new
  one. Python walks the set difference in an order of its own; here it is the order of
  the previous list.
\<close>

definition diff :: "bridge_state \<Rightarrow> pystr list" where
  "diff s =
     filter (\<lambda>u. u \<notin> set (bd_keys (PLAYER_LIST s))) (remdups (bd_keys (PREVIOUS_PLAYER_LIST s)))"

definition log_left_offline :: "bridge_state \<Rightarrow> effect list" where
  "log_left_offline s =
     map (\<lambda>(idx, uuid).
            LogConnection uuid DISCONNECTED
              (Some (int (length (PREVIOUS_PLAYER_LIST s)) - (int idx + 1))))
         (enumerate 0 (diff s))"

text \<open>The body of the loop of \<open>handle_tab_list\<close> for an \<open>AddPlayerAction\<close>.\<close>

definition add_player ::
  "config \<Rightarrow> env \<Rightarrow> bridge_state \<Rightarrow> pystr \<Rightarrow> pystr \<Rightarrow> bridge_state \<times> effect list \<times> control" where
  "add_player cfg ev s name uuid =
     (if bd_inv_mem name (PLAYER_LIST s) then (s, [], Return)
      else case bd_inv_put (PLAYER_LIST s) name uuid of
        Inl e \<Rightarrow> (s, [], Raise e)
      | Inr pl \<Rightarrow>
          let s1 = s\<lparr>PLAYER_LIST := pl\<rparr> in
          (case (if bd_inv_mem name (UUID_CACHE s1) then Inr (UUID_CACHE s1)
                 else bd_inv_put (UUID_CACHE s1) name uuid) of
             Inl e \<Rightarrow> (s1, [], Raise e)
           | Inr cache \<Rightarrow>
               let s2 = s1\<lparr>UUID_CACHE := cache\<rparr> in
               if ACCEPT_JOIN_EVENTS s2 then
                 (case post_all ev (WEBHOOKS s2) (join_payload name uuid) of
                    (posts, False) \<Rightarrow> (s2, posts, Raise RequestException)
                  | (posts, True) \<Rightarrow>
                      (s2,
                       posts @
                       (if es_enabled cfg
                        then [LogConnection uuid CONNECTED (Some (int (length (PLAYER_LIST s2))))]
                        else []),
                       Return))
               else
                 (if name = BOT_USERNAME s2 then
                    (s2\<lparr>ACCEPT_JOIN_EVENTS := True\<rparr>,
                     (if es_enabled cfg
                      then log_left_offline s2 @
                           [LogConnection uuid CONNECTED (Some (int (length (PLAYER_LIST s2)))),
                            LogConnection uuid SEEN None]
                      else []),
                     Continue)
                  else
                    (s2, (if es_enabled cfg then [LogConnection uuid SEEN None] else []),
                     Continue))))"

text \<open>The body of the loop for a \<open>RemovePlayerAction\<close>.\<close>

definition remove_player ::
  "config \<Rightarrow> env \<Rightarrow> bridge_state \<Rightarrow> pystr \<Rightarrow> bridge_state \<times> effect list \<times> control" where
  "remove_player cfg ev s uuid =
     (case mc_uuid_to_username ev (UUID_CACHE s) uuid of
        (cache, username) \<Rightarrow>
          let s1 = s\<lparr>UUID_CACHE := cache\<rparr> in
          (case post_all ev (WEBHOOKS s1) (leave_payload username uuid) of
             (posts, False) \<Rightarrow> (s1, posts, Raise RequestException)
           | (posts, True) \<Rightarrow>
               (case bd_del (UUID_CACHE s1) uuid of
                  Inl e \<Rightarrow> (s1, posts, Raise e)
                | Inr cache' \<Rightarrow>
                    let s2 = s1\<lparr>UUID_CACHE := cache'\<rparr> in
                    (case bd_del (PLAYER_LIST s2) uuid of
                       Inl e \<Rightarrow> (s2, posts, Raise e)
                     | Inr pl \<Rightarrow>
                         (s2\<lparr>PLAYER_LIST := pl\<rparr>,
                          posts @
                          (if es_enabled cfg
                           then [LogConnection uuid DISCONNECTED (Some (int (length pl)))]
                           else []),
                          Continue)))))"

definition handle_action ::
  "config \<Rightarrow> env \<Rightarrow> bridge_state \<Rightarrow> action \<Rightarrow> bridge_state \<times> effect list \<times> control" where
  "handle_action cfg ev s a =
     (case a of
        AddPlayerAction name uuid \<Rightarrow> add_player cfg ev s name uuid
      | RemovePlayerAction uuid \<Rightarrow> remove_player cfg ev s uuid
      | OtherAction \<Rightarrow> (s, [], Continue))"

text \<open>\<open>handle_tab_list\<close>, on the actions of the packet.\<close>

fun handle_tab_list ::
  "config \<Rightarrow> env \<Rightarrow> bridge_state \<Rightarrow> action list \<Rightarrow> bridge_state \<times> effect list \<times> outcome" where
  "handle_tab_list cfg ev s [] = (s, [], Returned)"
| "handle_tab_list cfg ev s (a # actions) =
     (case handle_action cfg ev s a of
        (s', es, Continue) \<Rightarrow>
          (case handle_tab_list cfg ev s' actions of (s'', es', out) \<Rightarrow> (s'', es @ es', out))
      | (s', es, Return) \<Rightarrow> (s', es, Returned)
      | (s', es, Raise e) \<Rightarrow> (s', es, Raised e))"

section \<open>The connection life cycle\<close>



text \<open>The three assignments at the head of \<open>handle_disconnect\<close>.\<close>

definition session_reset :: "bridge_state \<Rightarrow> bridge_state" where
  "session_reset s =
     s\<lparr>PREVIOUS_PLAYER_LIST := PLAYER_LIST s, ACCEPT_JOIN_EVENTS := False, PLAYER_LIST := []\<rparr>"



text \<open>
  A sequence of tab-list packets. An exception of a listener goes to
  \<open>minecraft_handle_exception\<close>, whose \<open>handle_disconnect\<close> resets the session before
  the packets of the next connection arrive.
\<close>

fun run_tab_lists ::
  "config \<Rightarrow> env \<Rightarrow> bridge_state \<Rightarrow> action list list \<Rightarrow> bridge_state \<times> effect list" where
  "run_tab_lists cfg ev s [] = (s, [])"
| "run_tab_lists cfg ev s (packet # packets) =
     (case handle_tab_list cfg ev s packet of
        (s', es, Returned) \<Rightarrow>
          (case run_tab_lists cfg ev s' packets of (s'', es') \<Rightarrow> (s'', es @ es'))
      | (s', es, Raised e) \<Rightarrow>
          (case run_tab_lists cfg ev (session_reset s') packets of (s'', es') \<Rightarrow> (s'', es @ es')))"

section \<open>The relay from the game to the chat platform\<close>

text \<open>
  A chat packet, its JSON decoded: the \<open>text\<close> of each component of \<open>extra\<close> (\<open>None\<close>
  for a component without one), or \<open>None\<close> when there is no \<open>extra\<close>; and the position.
\<close>

record chat_packet =
  extra :: "pystr option list option"
  position :: nat

text \<open>\<open>chat_string += chat_component["text"]\<close>; a component without text raises.\<close>

fun chat_text :: "pystr option list \<Rightarrow> pystr option" where
  "chat_text [] = Some []"
| "chat_text (None # cs) = None"
| "chat_text (Some t # cs) = (case chat_text cs of None \<Rightarrow> None | Some r \<Rightarrow> Some (t @ r))"

text \<open>
  The lazy group \<open>(.*?)\<close> followed by the literal \<open>sep\<close>: the shortest prefix without a
  line feed after which \<open>sep\<close> stands, and what follows \<open>sep\<close>.
\<close>

fun lazy_until :: "pystr \<Rightarrow> pystr \<Rightarrow> (pystr \<times> pystr) option" where
  "lazy_until sep [] = None"
| "lazy_until sep (c # cs) =
     (if take (length sep) (c # cs) = sep then Some ([], drop (length sep) (c # cs))
      else if c = 10 then None
      else case lazy_until sep cs of None \<Rightarrow> None | Some (g, t) \<Rightarrow> Some (c # g, t))"

text \<open>
  \<open>re.match("<(.*?)> (.*)", chat_string, re.M|re.I)\<close>: groups 1 and 2. The greedy
  \<open>(.*)\<close> runs to the end of the line.
\<close>

definition match_chat :: "pystr \<Rightarrow> (pystr \<times> pystr) option" where
  "match_chat chat_string =
     (case chat_string of
        [] \<Rightarrow> None
      | c # cs \<Rightarrow>
          if c = 60 then
            (case lazy_until [62, 32] cs of
               None \<Rightarrow> None
             | Some (g1, t) \<Rightarrow> Some (g1, takeWhile (\<lambda>x. x \<noteq> 10) t))
          else None)"

text \<open>
  \<open>re.match("<{}> (.*?): (.*)".format(BOT_USERNAME.lower()), chat_string, re.M|re.I)\<close>,
  for a name without characters that are special in a pattern.
\<close>

definition match_bot :: "pystr \<Rightarrow> pystr \<Rightarrow> (pystr \<times> pystr) option" where
  "match_bot bot_name chat_string =
     (case chat_string of
        [] \<Rightarrow> None
      | c # cs \<Rightarrow>
          if c = 60 \<and> lower (take (length bot_name) cs) = lower bot_name \<and>
             take 2 (drop (length bot_name) cs) = [62, 32] then
            (case lazy_until [58, 32] (drop (length bot_name + 2) cs) of
               None \<Rightarrow> None
             | Some (g1, t) \<Rightarrow> Some (g1, takeWhile (\<lambda>x. x \<noteq> 10) t))
          else None)"

text \<open>\<open>el.log_raw_message(type=ChatType(chat_packet.position).name, ...)\<close>.\<close>

definition log_raw :: "chat_packet \<Rightarrow> effect list \<times> outcome" where
  "log_raw pkt =
     (if position pkt \<le> 2 then ([LogRawMessage (position pkt)], Returned)
      else ([], Raised ValueError))"

definition chat_payload :: "pystr \<Rightarrow> pystr option \<Rightarrow> pystr \<Rightarrow> payload" where
  "chat_payload username player_uuid message =
     Payload (Some username) (avatar (format_opt player_uuid)) message []"

definition handle_chat ::
  "config \<Rightarrow> env \<Rightarrow> bridge_state \<Rightarrow> chat_packet \<Rightarrow> bridge_state \<times> effect list \<times> outcome" where
  "handle_chat cfg ev s pkt =
     (case extra pkt of
        None \<Rightarrow> (s, [], Returned)
      | Some components \<Rightarrow>
          (case chat_text components of
             None \<Rightarrow> (s, [], Raised KeyError)
           | Some chat_string \<Rightarrow>
               (case match_chat chat_string of
                  None \<Rightarrow>
                    (if es_enabled cfg then (s, log_raw pkt) else (s, [], Returned))
                | Some (username, original_message) \<Rightarrow>
                    (case mc_username_to_uuid ev (UUID_CACHE s) username of
                       (cache, player_uuid) \<Rightarrow>
                         let s1 = s\<lparr>UUID_CACHE := cache\<rparr> in
                         if lower username = lower (BOT_USERNAME s1) then
                           (if es_enabled cfg then
                              (case match_bot (BOT_USERNAME s1) chat_string of
                                 None \<Rightarrow> (s1, [], Returned)
                               | Some (g1, g2) \<Rightarrow>
                                   (case mc_username_to_uuid ev (UUID_CACHE s1) g1 of
                                      (cache', u) \<Rightarrow>
                                        (case log_raw pkt of
                                           (es, out) \<Rightarrow>
                                             (s1\<lparr>UUID_CACHE := cache'\<rparr>,
                                              LogChatMessage u g1 g2 chat_string # es, out))))
                            else (s1, [], Returned))
                         else
                           (let message =
                                  escape_markdown
                                    (remove_emoji
                                      (replace_char 64 [64, 8203] (strip original_message)))
                            in case post_all ev (WEBHOOKS s1)
                                      (chat_payload username player_uuid message) of
                                 (posts, False) \<Rightarrow> (s1, posts, Raised RequestException)
                               | (posts, True) \<Rightarrow>
                                   (if es_enabled cfg then
                                      (case log_raw pkt of
                                         (es, out) \<Rightarrow>
                                           (s1,
                                            posts @
                                            LogChatMessage player_uuid username original_message
                                              chat_string # es,
                                            out))
                                    else (s1, posts, Returned)))))))"

section \<open>The relay from the chat platform to the game\<close>

text \<open>
  A message of the chat platform, what the store answers about it (whether its channel
  relays; the account record of its author: none, one without a linked game account,
  or the linked identifier; the channels that relay), and what the chat platform does
  during the handler: the webhooks of a channel (name and number; \<open>None\<close> when the
  channel cannot be read, which raises), whether a send through a webhook succeeds,
  whether a private reply is forbidden, and the clock at its two readings.
\<close>

record message =
  author_is_bridge :: bool
  author_bot :: bool
  author_mention :: pystr
  content :: pystr
  clean_content :: pystr

record store =
  channel_should_chat :: bool
  discord_user :: "pystr option option"
  channels :: "nat list"

record discord =
  webhooks_of :: "nat \<Rightarrow> (pystr \<times> nat) list option"
  send_ok :: "nat \<Rightarrow> bool"
  dm_forbidden :: bool
  now_gate :: int
  now_relay :: int

text \<open>\<open>s[:k]\<close> for an integer \<open>k\<close>: a negative \<open>k\<close> counts from the end.\<close>

definition slice_to :: "int \<Rightarrow> 'a list \<Rightarrow> 'a list" where
  "slice_to k s = (if 0 \<le> k then take (nat k) s else take (nat (int (length s) + k)) s)"

text \<open>
  The \<open>try\<close> block of a reply: the reply, or, when private messages are forbidden, the
  notice in the channel. Its \<open>finally: return\<close> ends the handler.
\<close>

definition private_reply :: "discord \<Rightarrow> message \<Rightarrow> pystr \<Rightarrow> effect list" where
  "private_reply dc m msg =
     (if dm_forbidden dc
      then [Notice (author_mention m @ py '', please allow private messages from this bot.'')]
      else [Reply msg])"

definition rate_limited_text :: "message \<Rightarrow> pystr" where
  "rate_limited_text m =
     py ''Your message '' @ [34] @ clean_content m @ [34] @ py '' has been rate-limited.''"

definition not_linked_text :: pystr where
  "not_linked_text =
     py ''Unable to send chat message: there is no Minecraft account linked to this discord account,please run '' @
     [96] @ py ''mc!register'' @ [96] @ py ''.''"

text \<open>
  \<open>for webhook in webhooks: if webhook.name == "_minecraft": await webhook.send(...)\<close>:
  the sends attempted, and whether the loop ran to its end.
\<close>

fun send_hooks ::
  "discord \<Rightarrow> (pystr \<times> nat) list \<Rightarrow> pystr \<Rightarrow> pystr \<Rightarrow> pystr \<Rightarrow> effect list \<times> bool" where
  "send_hooks dc [] name av txt = ([], True)"
| "send_hooks dc ((hook_name, hook) # hooks) name av txt =
     (if hook_name = py ''_minecraft'' then
        (if send_ok dc hook then
           (case send_hooks dc hooks name av txt of
              (es, ok) \<Rightarrow> (WebhookSend hook name av txt # es, ok))
         else ([WebhookSend hook name av txt], False))
      else send_hooks dc hooks name av txt)"

text \<open>\<open>for channel in channels: ...\<close>: the sends attempted, and the exception if any.\<close>

fun send_channels ::
  "discord \<Rightarrow> nat list \<Rightarrow> pystr \<Rightarrow> pystr \<Rightarrow> pystr \<Rightarrow> effect list \<times> error option" where
  "send_channels dc [] name av txt = ([], None)"
| "send_channels dc (channel # cs) name av txt =
     (case webhooks_of dc channel of
        None \<Rightarrow> ([], Some AttributeError)
      | Some hooks \<Rightarrow>
          (case send_hooks dc hooks name av txt of
             (es, False) \<Rightarrow> (es, Some DiscordException)
           | (es, True) \<Rightarrow>
               (case send_channels dc cs name av txt of (es', r) \<Rightarrow> (es @ es', r))))"

text \<open>
  Lines 624 to 635: the two forms of the message after the length check, or \<open>None\<close>
  where the handler returns because nothing is left to send.
\<close>

definition fit_message :: "pystr \<Rightarrow> pystr \<Rightarrow> pystr \<Rightarrow> (pystr \<times> pystr) option" where
  "fit_message minecraft_username message_to_send message_to_discord =
     (let padding = 2 + length minecraft_username;
          total_len = padding + length message_to_send
      in if total_len > 256 then
           Some (slice_to (256 - int padding) message_to_send,
                 slice_to (256 - int padding) message_to_discord)
         else if length message_to_send \<le> 0 then None
         else Some (message_to_send, message_to_discord))"

text \<open>The gate of lines 642 and 643.\<close>

definition rate_limited :: "discord \<Rightarrow> bridge_state \<Rightarrow> pystr \<Rightarrow> bool" where
  "rate_limited dc s message_to_send \<longleftrightarrow>
     message_to_send = PREVIOUS_MESSAGE s \<or> now_gate dc < NEXT_MESSAGE_TIME s"

text \<open>
  The branch of \<open>on_message\<close> for a linked account, from line 619 on; the incoming
  message has been deleted.
\<close>

definition relay ::
  "config \<Rightarrow> env \<Rightarrow> discord \<Rightarrow> store \<Rightarrow> bridge_state \<Rightarrow> message \<Rightarrow> pystr \<Rightarrow>
   bridge_state \<times> effect list \<times> outcome" where
  "relay cfg ev dc db s m minecraft_uuid =
     (case mc_uuid_to_username ev (UUID_CACHE s) minecraft_uuid of
        (cache, None) \<Rightarrow> (s\<lparr>UUID_CACHE := cache\<rparr>, [], Raised TypeError)
      | (cache, Some minecraft_username) \<Rightarrow>
          let s1 = s\<lparr>UUID_CACHE := cache\<rparr> in
          (case ascii_replace (clean_content m) of
             None \<Rightarrow> (s1, [], Raised UnicodeEncodeError)
           | Some ascii \<Rightarrow>
               (case fit_message minecraft_username (strip (remove_emoji ascii))
                       (escape_markdown (clean_content m)) of
                  None \<Rightarrow> (s1, [], Returned)
                | Some (message_to_send, message_to_discord) \<Rightarrow>
                    if rate_limited dc s1 message_to_send then
                      (s1, private_reply dc m (rate_limited_text m), Returned)
                    else
                      let s2 = s1\<lparr>PREVIOUS_MESSAGE := message_to_send,
                                  NEXT_MESSAGE_TIME := now_relay dc + message_delay cfg\<rparr>
                      in (case send_channels dc (channels db) minecraft_username
                                 (avatar minecraft_uuid) message_to_discord of
                            (es, Some e) \<Rightarrow> (s2, es, Raised e)
                          | (es, None) \<Rightarrow>
                              (s2,
                               es @ [WritePacket (minecraft_username @ py '': '' @ message_to_send)],
                               Returned)))))"

text \<open>
  \<open>on_message\<close>. Every command starts with \<open>mc!\<close>; what a command does is not followed
  here (\<open>Command\<close>).
\<close>

definition on_message ::
  "config \<Rightarrow> env \<Rightarrow> discord \<Rightarrow> store \<Rightarrow> bridge_state \<Rightarrow> message \<Rightarrow>
   bridge_state \<times> effect list \<times> outcome" where
  "on_message cfg ev dc db s m =
     (if author_is_bridge m then (s, [], Returned)
      else if take 3 (content m) = py ''mc!'' then (s, [Command], Returned)
      else if \<not> author_bot m then
        (if channel_should_chat db then
           (case discord_user db of
              None \<Rightarrow> (s, DeleteMessage # private_reply dc m not_linked_text, Returned)
            | Some None \<Rightarrow> (s, [DeleteMessage], Returned)
            | Some (Some minecraft_uuid) \<Rightarrow>
                (case relay cfg ev dc db s m minecraft_uuid of
                   (s', es, out) \<Rightarrow> (s', DeleteMessage # es, out)))
         else (s, [], Returned))
      else (s, [], Returned))"

text \<open>The join and leave notifications among the effects, and whether a packet adds a name.\<close>

fun is_join_post :: "effect \<Rightarrow> bool" where
  "is_join_post (Post w (Payload n a c e)) = (e = [(65280, py ''**Joined the game**'')])"
| "is_join_post e = False"

fun is_leave_post :: "effect \<Rightarrow> bool" where
  "is_leave_post (Post w (Payload n a c e)) = (e = [(16711680, py ''**Left the game**'')])"
| "is_leave_post e = False"

definition adds_name :: "pystr \<Rightarrow> action list \<Rightarrow> bool" where
  "adds_name name actions = list_ex (\<lambda>a. case a of AddPlayerAction n u \<Rightarrow> n = name | _ \<Rightarrow> False) actions"




text \<open>The sends that a list of webhooks of one channel asks for.\<close>

definition minecraft_sends :: "(pystr \<times> nat) list \<Rightarrow> pystr \<Rightarrow> pystr \<Rightarrow> pystr \<Rightarrow> effect list" where
  "minecraft_sends hooks name av txt =
     map (\<lambda>(n, h). WebhookSend h name av txt) (filter (\<lambda>(n, h). n = py ''_minecraft'') hooks)"

text \<open>The effects that are entries of the analytics log.\<close>

fun is_analytics :: "effect \<Rightarrow> bool" where
  "is_analytics (LogConnection u r c) = True"
| "is_analytics (LogChatMessage u n m f) = True"
| "is_analytics (LogRawMessage p) = True"
| "is_analytics e = False"

text \<open>
  An effect carries the two forms of a relayed message: a packet written to the game
  is the first, the content of a send through a webhook is the second.
\<close>

fun carries :: "pystr \<Rightarrow> pystr \<Rightarrow> effect \<Rightarrow> bool" where
  "carries game_form display_form (WritePacket x) = (x = game_form)"
| "carries game_form display_form (WebhookSend h n a c) = (c = display_form)"
| "carries game_form display_form e = True"

text \<open>A reply to the author or a notice in the channel.\<close>

fun is_reply :: "effect \<Rightarrow> bool" where
  "is_reply (Reply msg) = True"
| "is_reply (Notice msg) = True"
| "is_reply e = False"

section \<open>Concrete inputs\<close>

text \<open>
  A configuration with analytics on, collaborators that answer nothing about
  identities and accept every post, and a bridge with two webhooks that knows one
  player, before and after its own name has been seen.
\<close>

definition ex_cfg :: config where
  "ex_cfg = \<lparr>es_enabled = True, message_delay = 5000000\<rparr>"

definition ex_env :: env where
  "ex_env = \<lparr>names_of = (\<lambda>u. None), id_of = (\<lambda>n. None), post = (\<lambda>w. Response 204)\<rparr>"

definition ex_backfilling :: bridge_state where
  "ex_backfilling =
     \<lparr>UUID_CACHE = [(py ''u-alice'', py ''Alice'')],
      WEBHOOKS = [py ''hook1'', py ''hook2''],
      BOT_USERNAME = py ''Bridge'',
      NEXT_MESSAGE_TIME = 0,
      PREVIOUS_MESSAGE = [],
      PLAYER_LIST = [(py ''u-alice'', py ''Alice'')],
      PREVIOUS_PLAYER_LIST = [],
      ACCEPT_JOIN_EVENTS = False\<rparr>"

definition ex_active :: bridge_state where
  "ex_active = ex_backfilling\<lparr>ACCEPT_JOIN_EVENTS := True\<rparr>"



text \<open>Collaborators whose first webhook answers with an error status, or cannot be reached.\<close>

definition ex_env_500 :: env where
  "ex_env_500 = ex_env\<lparr>post := (\<lambda>w. if w = py ''hook1'' then Response 500 else Response 204)\<rparr>"

definition ex_env_down :: env where
  "ex_env_down = ex_env\<lparr>post := (\<lambda>w. if w = py ''hook1'' then Fails else Response 204)\<rparr>"

text \<open>A chat platform on which the webhook of channel 1 cannot be sent to.\<close>

definition ex_discord_down :: discord where
  "ex_discord_down =
     \<lparr>webhooks_of = (\<lambda>c. Some [(py ''_minecraft'', c)]), send_ok = (\<lambda>h. h \<noteq> 1),
      dm_forbidden = False, now_gate = 10, now_relay = 10\<rparr>"

text \<open>A chat packet in which the bridge's own account relays what Alice said.\<close>

definition ex_own_chat :: chat_packet where
  "ex_own_chat = \<lparr>extra = Some [Some (py ''<bridge> ''), Some (py ''Alice: hi'')], position = 0\<rparr>"





text \<open>
  A store in which the author is linked to Alice's account and two channels relay, a
  chat platform on which every send succeeds, a message of 300 letters and a message
  of blanks.
\<close>

definition ex_store :: store where
  "ex_store =
     \<lparr>channel_should_chat = True, discord_user = Some (Some (py ''u-alice'')), channels = [1, 2]\<rparr>"

definition ex_discord :: discord where
  "ex_discord =
     \<lparr>webhooks_of = (\<lambda>c. Some [(py ''_minecraft'', c)]), send_ok = (\<lambda>h. True),
      dm_forbidden = False, now_gate = 10, now_relay = 11\<rparr>"

definition ex_long_message :: message where
  "ex_long_message =
     \<lparr>author_is_bridge = False, author_bot = False, author_mention = py ''@al'',
      content = replicate 300 97, clean_content = replicate 300 97\<rparr>"

definition ex_blank_message :: message where
  "ex_blank_message =
     \<lparr>author_is_bridge = False, author_bot = False, author_mention = py ''@al'',
      content = py ''   '', clean_content = py ''   ''\<rparr>"

text \<open>
  The message \<open>hi\<close>, the chat platform long after the configured delay of five seconds,
  and the bridge after it has relayed \<open>hi\<close> at time 11.
\<close>

definition ex_hi :: message where
  "ex_hi =
     \<lparr>author_is_bridge = False, author_bot = False, author_mention = py ''@al'',
      content = py ''hi'', clean_content = py ''hi''\<rparr>"

definition ex_discord_later :: discord where
  "ex_discord_later = ex_discord\<lparr>now_gate := 9000000, now_relay := 9000001\<rparr>"

definition ex_relayed :: bridge_state where
  "ex_relayed = ex_active\<lparr>PREVIOUS_MESSAGE := py ''hi'', NEXT_MESSAGE_TIME := 5000011\<rparr>"


section \<open>Properties of the presence tracker\<close>

lemmas ex_defs = ex_cfg_def ex_env_def ex_backfilling_def ex_active_def

lemmas bd_defs =
  bd_mem_def bd_inv_mem_def bd_keys_def bd_values_def bd_get_def bd_inv_get_def
  bd_inv_put_def bd_put_def bd_inv_def bd_del_def

lemma add_not_continue:
  "ACCEPT_JOIN_EVENTS s \<Longrightarrow> add_player cfg ev s name uuid = (s', es, c) \<Longrightarrow> c \<noteq> Continue"
  by (auto simp: add_player_def Let_def split: sum.splits prod.splits bool.splits if_splits)

lemma handle_action_accept:
  "ACCEPT_JOIN_EVENTS s \<Longrightarrow> handle_action cfg ev s a = (s', es, Continue) \<Longrightarrow>
   ACCEPT_JOIN_EVENTS s'"
  by (cases a)
     (auto simp: handle_action_def add_player_def remove_player_def Let_def
           split: sum.splits prod.splits bool.splits if_splits)

lemma add_ends_packet:
  "ACCEPT_JOIN_EVENTS s \<Longrightarrow>
   handle_tab_list cfg ev s (AddPlayerAction name uuid # rest) =
   handle_tab_list cfg ev s [AddPlayerAction name uuid]"
proof -
  assume a: "ACCEPT_JOIN_EVENTS s"
  obtain s' es c where r: "add_player cfg ev s name uuid = (s', es, c)"
    by (cases "add_player cfg ev s name uuid") auto
  from add_not_continue [OF a r] have "c \<noteq> Continue" .
  with r show ?thesis by (cases c) (simp_all add: handle_action_def)
qed

text \<open>
  C9. While join events are accepted, the first \<open>AddPlayerAction\<close> of a packet ends the
  handler, whether it relays the join notification, meets a duplicate or raises: the
  state, the effects and the outcome of the packet are those of the packet cut after
  that action, whatever actions follow it, a \<open>RemovePlayerAction\<close> included.
\<close>

theorem join_ends_packet:
  assumes "ACCEPT_JOIN_EVENTS s"
  shows "handle_tab_list cfg ev s (pre @ AddPlayerAction name uuid # rest) =
         handle_tab_list cfg ev s (pre @ [AddPlayerAction name uuid])"
  using assms
proof (induction pre arbitrary: s)
  case Nil
  then show ?case using add_ends_packet by simp
next
  case (Cons a pre)
  obtain s' es c where r: "handle_action cfg ev s a = (s', es, c)"
    by (cases "handle_action cfg ev s a") auto
  show ?case
  proof (cases c)
    case Continue
    with r Cons.prems have "ACCEPT_JOIN_EVENTS s'" using handle_action_accept by blast
    from Cons.IH [OF this] r Continue show ?thesis by simp
  next
    case Return
    with r show ?thesis by simp
  next
    case (Raise e)
    with r show ?thesis by simp
  qed
qed

lemma ex_active_join:
  "handle_tab_list ex_cfg ex_env ex_active [AddPlayerAction (py ''Bob'') (py ''u-bob'')] =
     (ex_active\<lparr>PLAYER_LIST := [(py ''u-alice'', py ''Alice''), (py ''u-bob'', py ''Bob'')],
                UUID_CACHE := [(py ''u-alice'', py ''Alice''), (py ''u-bob'', py ''Bob'')]\<rparr>,
      [Post (py ''hook1'') (join_payload (py ''Bob'') (py ''u-bob'')),
       Post (py ''hook2'') (join_payload (py ''Bob'') (py ''u-bob'')),
       LogConnection (py ''u-bob'') CONNECTED (Some 2)],
      Returned)"
  by (simp add: ex_defs handle_action_def add_player_def bd_defs py_def)

theorem join_ends_packet_witness:
  "ACCEPT_JOIN_EVENTS ex_active \<and>
   handle_tab_list ex_cfg ex_env ex_active
     ([] @ AddPlayerAction (py ''Bob'') (py ''u-bob'') # [RemovePlayerAction (py ''u-alice'')]) =
     (ex_active\<lparr>PLAYER_LIST := [(py ''u-alice'', py ''Alice''), (py ''u-bob'', py ''Bob'')],
                UUID_CACHE := [(py ''u-alice'', py ''Alice''), (py ''u-bob'', py ''Bob'')]\<rparr>,
      [Post (py ''hook1'') (join_payload (py ''Bob'') (py ''u-bob'')),
       Post (py ''hook2'') (join_payload (py ''Bob'') (py ''u-bob'')),
       LogConnection (py ''u-bob'') CONNECTED (Some 2)],
      Returned)"
proof -
  have a: "ACCEPT_JOIN_EVENTS ex_active" by (simp add: ex_defs)
  from join_ends_packet [OF a, of ex_cfg ex_env "[]" "py ''Bob''" "py ''u-bob''"
      "[RemovePlayerAction (py ''u-alice'')]"]
  show ?thesis using a ex_active_join by simp
qed

text \<open>
  C6, at a packet the code receives during a backfill: Alice is in the player list, the
  packet repeats her and then adds Bob. The handler returns at the repeated action;
  Bob is not added, and nothing is posted or logged.
\<close>

theorem duplicate_add_drops_rest:
  "handle_tab_list ex_cfg ex_env ex_backfilling
     [AddPlayerAction (py ''Alice'') (py ''u-alice''), AddPlayerAction (py ''Bob'') (py ''u-bob'')] =
     (ex_backfilling, [], Returned)"
  by (simp add: ex_defs handle_action_def add_player_def bd_defs py_def)

lemma post_all_set: "e \<in> set (fst (post_all ev ws p)) \<Longrightarrow> \<exists>w. e = Post w p"
  by (induction ws) (auto split: post_result.splits prod.splits)

lemma post_all_leave: "post_all ev ws (leave_payload n u) = (es, ok) \<Longrightarrow> e \<in> set es \<Longrightarrow> is_leave_post e \<and> \<not> is_join_post e"
  using post_all_set [of e ev ws "leave_payload n u"] by (auto simp: leave_payload_def)

lemma post_all_join: "post_all ev ws (join_payload n u) = (es, ok) \<Longrightarrow> e \<in> set es \<Longrightarrow> is_join_post e"
  using post_all_set [of e ev ws "join_payload n u"] by (auto simp: join_payload_def)

lemma log_left_offline_no_post: "e \<in> set (log_left_offline s) \<Longrightarrow> \<not> is_post e"
  by (auto simp: log_left_offline_def)

lemma add_player_backfill:
  assumes "\<not> ACCEPT_JOIN_EVENTS s" and "add_player cfg ev s name uuid = (s', es, c)"
  shows "filter is_post es = []"
    and "BOT_USERNAME s' = BOT_USERNAME s"
    and "name \<noteq> BOT_USERNAME s \<Longrightarrow> \<not> ACCEPT_JOIN_EVENTS s'"
  using assms
  by (auto simp: add_player_def Let_def log_left_offline_def filter_empty_conv
      split: sum.splits if_splits)

lemma remove_player_frame:
  assumes "remove_player cfg ev s uuid = (s', es, c)"
  shows "ACCEPT_JOIN_EVENTS s' = ACCEPT_JOIN_EVENTS s"
    and "BOT_USERNAME s' = BOT_USERNAME s"
    and "\<forall>e\<in>set es. \<not> is_join_post e"
    and "\<forall>e\<in>set es. is_post e \<longrightarrow> is_leave_post e"
  using assms
  by (auto simp: remove_player_def Let_def split: sum.splits prod.splits bool.splits if_splits
      dest: post_all_leave)


lemma handle_action_backfill:
  assumes "\<not> ACCEPT_JOIN_EVENTS s" and "handle_action cfg ev s a = (s', es, c)"
  shows "\<forall>e\<in>set es. \<not> is_join_post e"
    and "BOT_USERNAME s' = BOT_USERNAME s"
    and "\<not> adds_name (BOT_USERNAME s) [a] \<Longrightarrow> \<not> ACCEPT_JOIN_EVENTS s'"
proof -
  show "\<forall>e\<in>set es. \<not> is_join_post e"
  proof (cases a)
    case (AddPlayerAction n u)
    with assms have "filter is_post es = []"
      using add_player_backfill(1) by (simp add: handle_action_def)
    then have "\<forall>e\<in>set es. \<not> is_post e" by (simp add: filter_empty_conv)
    moreover have "\<And>e. is_join_post e \<Longrightarrow> is_post e"
      by (erule is_join_post.elims) auto
    ultimately show ?thesis by blast
  next
    case (RemovePlayerAction u)
    with assms show ?thesis using remove_player_frame(3) by (simp add: handle_action_def)
  next
    case OtherAction
    with assms show ?thesis by (simp add: handle_action_def)
  qed
  show "BOT_USERNAME s' = BOT_USERNAME s"
    using assms add_player_backfill(2) remove_player_frame(2)
    by (cases a) (auto simp: handle_action_def)
  show "\<not> adds_name (BOT_USERNAME s) [a] \<Longrightarrow> \<not> ACCEPT_JOIN_EVENTS s'"
    using assms add_player_backfill(3) remove_player_frame(1)
    by (cases a) (auto simp: handle_action_def adds_name_def)
qed

lemma handle_tab_list_backfill:
  assumes "\<not> ACCEPT_JOIN_EVENTS s" and "\<not> adds_name (BOT_USERNAME s) actions"
    and "handle_tab_list cfg ev s actions = (s', es, out)"
  shows "(\<forall>e\<in>set es. \<not> is_join_post e) \<and> BOT_USERNAME s' = BOT_USERNAME s \<and>
         \<not> ACCEPT_JOIN_EVENTS s'"
  using assms
proof (induction actions arbitrary: s s' es out)
  case Nil
  then show ?case by simp
next
  case (Cons a actions)
  obtain s1 es1 c where r: "handle_action cfg ev s a = (s1, es1, c)"
    by (cases "handle_action cfg ev s a") auto
  have na: "\<not> adds_name (BOT_USERNAME s) [a]" and nr: "\<not> adds_name (BOT_USERNAME s) actions"
    using Cons.prems(2) by (simp_all add: adds_name_def)
  note h = handle_action_backfill [OF Cons.prems(1) r]
  have acc: "\<not> ACCEPT_JOIN_EVENTS s1" using h(3) na by blast
  show ?case
  proof (cases c)
    case Continue
    obtain s2 es2 out2 where r2: "handle_tab_list cfg ev s1 actions = (s2, es2, out2)"
      by (cases "handle_tab_list cfg ev s1 actions") auto
    from nr h(2) have "\<not> adds_name (BOT_USERNAME s1) actions" by simp
    from Cons.IH [OF acc this r2] h(1) h(2) Cons.prems(3) r r2 Continue
    show ?thesis by auto
  next
    case Return
    with Cons.prems(3) r h acc show ?thesis by auto
  next
    case (Raise e)
    with Cons.prems(3) r h acc show ?thesis by auto
  qed
qed

lemma run_tab_lists_backfill:
  assumes "\<not> ACCEPT_JOIN_EVENTS s" and "\<forall>p\<in>set packets. \<not> adds_name (BOT_USERNAME s) p"
  shows "\<forall>e\<in>set (snd (run_tab_lists cfg ev s packets)). \<not> is_join_post e"
  using assms
proof (induction packets arbitrary: s)
  case Nil
  then show ?case by simp
next
  case (Cons p packets)
  obtain s1 es1 out where r: "handle_tab_list cfg ev s p = (s1, es1, out)"
    by (cases "handle_tab_list cfg ev s p") auto
  from Cons.prems have np: "\<not> adds_name (BOT_USERNAME s) p" by simp
  note h = handle_tab_list_backfill [OF Cons.prems(1) np r]
  let ?s2 = "case out of Returned \<Rightarrow> s1 | Raised e \<Rightarrow> session_reset s1"
  have a2: "\<not> ACCEPT_JOIN_EVENTS ?s2" and b2: "BOT_USERNAME ?s2 = BOT_USERNAME s"
    using h by (auto simp: session_reset_def split: outcome.splits)
  from Cons.prems(2) b2 have "\<forall>p\<in>set packets. \<not> adds_name (BOT_USERNAME ?s2) p" by simp
  from Cons.IH [OF a2 this] h r show ?case
    by (cases out) (auto split: prod.splits)
qed


text \<open>
  C1, as the code has it. A join notification is posted only while join events are
  accepted: whatever action is processed in whatever state, a join post among its
  effects means that \<open>ACCEPT_JOIN_EVENTS\<close> was set; an \<open>AddPlayerAction\<close> processed
  during the backfill posts to no webhook; and a sequence of packets that starts in the
  backfill and never adds the bridge's own name posts no join notification. Nothing is
  said of leave notifications: a \<open>RemovePlayerAction\<close> posts one in either state.
\<close>

theorem join_only_while_accepting:
  "(\<forall>e\<in>set (effects_of (handle_action cfg ev s a)). is_join_post e \<longrightarrow> ACCEPT_JOIN_EVENTS s) \<and>
   (\<not> ACCEPT_JOIN_EVENTS s \<longrightarrow>
      filter is_post (effects_of (add_player cfg ev s name uuid)) = []) \<and>
   (\<not> ACCEPT_JOIN_EVENTS s \<and> (\<forall>p\<in>set packets. \<not> adds_name (BOT_USERNAME s) p) \<longrightarrow>
      (\<forall>e\<in>set (snd (run_tab_lists cfg ev s packets)). \<not> is_join_post e))"
proof (intro conjI)
  obtain s' es c where r: "handle_action cfg ev s a = (s', es, c)"
    by (cases "handle_action cfg ev s a") auto
  show "\<forall>e\<in>set (effects_of (handle_action cfg ev s a)). is_join_post e \<longrightarrow> ACCEPT_JOIN_EVENTS s"
    using handle_action_backfill(1) [OF _ r] r by (auto simp: effects_of_def)
  obtain s1 es1 c1 where r1: "add_player cfg ev s name uuid = (s1, es1, c1)"
    by (cases "add_player cfg ev s name uuid") auto
  show "\<not> ACCEPT_JOIN_EVENTS s \<longrightarrow>
      filter is_post (effects_of (add_player cfg ev s name uuid)) = []"
    using add_player_backfill(1) [OF _ r1] r1 by (simp add: effects_of_def)
  show "\<not> ACCEPT_JOIN_EVENTS s \<and> (\<forall>p\<in>set packets. \<not> adds_name (BOT_USERNAME s) p) \<longrightarrow>
      (\<forall>e\<in>set (snd (run_tab_lists cfg ev s packets)). \<not> is_join_post e)"
    using run_tab_lists_backfill by blast
qed

lemma ex_active_join_action:
  "handle_action ex_cfg ex_env ex_active (AddPlayerAction (py ''Bob'') (py ''u-bob'')) =
     (ex_active\<lparr>PLAYER_LIST := [(py ''u-alice'', py ''Alice''), (py ''u-bob'', py ''Bob'')],
                UUID_CACHE := [(py ''u-alice'', py ''Alice''), (py ''u-bob'', py ''Bob'')]\<rparr>,
      [Post (py ''hook1'') (join_payload (py ''Bob'') (py ''u-bob'')),
       Post (py ''hook2'') (join_payload (py ''Bob'') (py ''u-bob'')),
       LogConnection (py ''u-bob'') CONNECTED (Some 2)],
      Return)"
  by (simp add: ex_defs handle_action_def add_player_def bd_defs py_def)

lemma ex_backfill_add:
  "add_player ex_cfg ex_env ex_backfilling (py ''Bob'') (py ''u-bob'') =
     (ex_backfilling\<lparr>PLAYER_LIST := [(py ''u-alice'', py ''Alice''), (py ''u-bob'', py ''Bob'')],
                UUID_CACHE := [(py ''u-alice'', py ''Alice''), (py ''u-bob'', py ''Bob'')]\<rparr>,
      [LogConnection (py ''u-bob'') SEEN None],
      Continue)"
  by (simp add: ex_defs add_player_def bd_defs py_def)

lemma ex_backfill_run:
  "run_tab_lists ex_cfg ex_env ex_backfilling
     [[AddPlayerAction (py ''Bob'') (py ''u-bob'')], [RemovePlayerAction (py ''u-alice'')]] =
     (ex_backfilling\<lparr>PLAYER_LIST := [(py ''u-bob'', py ''Bob'')],
                UUID_CACHE := [(py ''u-bob'', py ''Bob'')]\<rparr>,
      [LogConnection (py ''u-bob'') SEEN None,
       Post (py ''hook1'') (leave_payload (Some (py ''Alice'')) (py ''u-alice'')),
       Post (py ''hook2'') (leave_payload (Some (py ''Alice'')) (py ''u-alice'')),
       LogConnection (py ''u-alice'') DISCONNECTED (Some 1)])"
  by (simp add: ex_defs handle_action_def add_player_def remove_player_def
      mc_uuid_to_username_def bd_defs py_def)

text \<open>
  Against C1 as stated: during the backfill a \<open>RemovePlayerAction\<close> posts the leave
  notification to both webhooks.
\<close>

theorem remove_posts_during_backfill:
  "\<not> ACCEPT_JOIN_EVENTS ex_backfilling \<and>
   effects_of (handle_tab_list ex_cfg ex_env ex_backfilling [RemovePlayerAction (py ''u-alice'')]) =
     [Post (py ''hook1'') (leave_payload (Some (py ''Alice'')) (py ''u-alice'')),
      Post (py ''hook2'') (leave_payload (Some (py ''Alice'')) (py ''u-alice'')),
      LogConnection (py ''u-alice'') DISCONNECTED (Some 0)]"
  by (simp add: ex_defs handle_action_def remove_player_def effects_of_def
      mc_uuid_to_username_def bd_defs py_def)

theorem join_only_while_accepting_witness:
  "is_join_post (Post (py ''hook1'') (join_payload (py ''Bob'') (py ''u-bob''))) \<and>
   Post (py ''hook1'') (join_payload (py ''Bob'') (py ''u-bob'')) \<in>
     set (effects_of (handle_action ex_cfg ex_env ex_active
            (AddPlayerAction (py ''Bob'') (py ''u-bob'')))) \<and>
   ACCEPT_JOIN_EVENTS ex_active \<and>
   \<not> ACCEPT_JOIN_EVENTS ex_backfilling \<and>
   filter is_post (effects_of (add_player ex_cfg ex_env ex_backfilling (py ''Bob'') (py ''u-bob''))) = [] \<and>
   \<not> adds_name (BOT_USERNAME ex_backfilling) [AddPlayerAction (py ''Bob'') (py ''u-bob'')] \<and>
   \<not> adds_name (BOT_USERNAME ex_backfilling) [RemovePlayerAction (py ''u-alice'')] \<and>
   Post (py ''hook1'') (leave_payload (Some (py ''Alice'')) (py ''u-alice'')) \<in>
     set (snd (run_tab_lists ex_cfg ex_env ex_backfilling
            [[AddPlayerAction (py ''Bob'') (py ''u-bob'')], [RemovePlayerAction (py ''u-alice'')]])) \<and>
   \<not> is_join_post (Post (py ''hook1'') (leave_payload (Some (py ''Alice'')) (py ''u-alice'')))"
proof -
  have j: "is_join_post (Post (py ''hook1'') (join_payload (py ''Bob'') (py ''u-bob'')))"
    by (simp add: join_payload_def)
  have m: "Post (py ''hook1'') (join_payload (py ''Bob'') (py ''u-bob'')) \<in>
     set (effects_of (handle_action ex_cfg ex_env ex_active
            (AddPlayerAction (py ''Bob'') (py ''u-bob''))))"
    unfolding ex_active_join_action effects_of_def by simp
  have b: "\<not> ACCEPT_JOIN_EVENTS ex_backfilling" by (simp add: ex_defs)
  have n: "\<forall>p\<in>set [[AddPlayerAction (py ''Bob'') (py ''u-bob'')], [RemovePlayerAction (py ''u-alice'')]].
             \<not> adds_name (BOT_USERNAME ex_backfilling) p"
    by (simp add: adds_name_def ex_defs py_def)
  have l: "Post (py ''hook1'') (leave_payload (Some (py ''Alice'')) (py ''u-alice'')) \<in>
     set (snd (run_tab_lists ex_cfg ex_env ex_backfilling
            [[AddPlayerAction (py ''Bob'') (py ''u-bob'')], [RemovePlayerAction (py ''u-alice'')]]))"
    unfolding ex_backfill_run by simp
  note t1 = join_only_while_accepting [of ex_cfg ex_env ex_active
      "AddPlayerAction (py ''Bob'') (py ''u-bob'')" "[]" "[]" "[]"]
  note t2 = join_only_while_accepting [of ex_cfg ex_env ex_backfilling OtherAction
      "py ''Bob''" "py ''u-bob''"
      "[[AddPlayerAction (py ''Bob'') (py ''u-bob'')], [RemovePlayerAction (py ''u-alice'')]]"]
  from t1 j m have a: "ACCEPT_JOIN_EVENTS ex_active" by blast
  from t2 b have f: "filter is_post (effects_of (add_player ex_cfg ex_env ex_backfilling (py ''Bob'') (py ''u-bob''))) = []"
    by blast
  from t2 b n l have q: "\<not> is_join_post (Post (py ''hook1'') (leave_payload (Some (py ''Alice'')) (py ''u-alice'')))"
    by blast
  from n have n': "\<not> adds_name (BOT_USERNAME ex_backfilling) [AddPlayerAction (py ''Bob'') (py ''u-bob'')] \<and>
   \<not> adds_name (BOT_USERNAME ex_backfilling) [RemovePlayerAction (py ''u-alice'')]" by simp
  from j m a b f n' l q show ?thesis by blast
qed





















lemma post_all_ok:
  "\<forall>w\<in>set ws. post ev w \<noteq> Fails \<Longrightarrow> post_all ev ws p = (map (\<lambda>w. Post w p) ws, True)"
  by (induction ws) (auto split: post_result.splits)

lemma post_all_fails:
  "\<forall>x\<in>set pre. post ev x \<noteq> Fails \<Longrightarrow> post ev w = Fails \<Longrightarrow>
   post_all ev (pre @ w # rest) p = (map (\<lambda>w. Post w p) (pre @ [w]), False)"
  by (induction pre) (auto split: post_result.splits)

lemma send_hooks_ok:
  "\<forall>(n, h)\<in>set hooks. n = py ''_minecraft'' \<longrightarrow> send_ok dc h \<Longrightarrow>
   send_hooks dc hooks name av txt = (minecraft_sends hooks name av txt, True)"
  by (induction hooks) (auto simp: minecraft_sends_def)

lemma send_hooks_fails:
  "\<forall>(n, h)\<in>set pre. n = py ''_minecraft'' \<longrightarrow> send_ok dc h \<Longrightarrow> \<not> send_ok dc hook \<Longrightarrow>
   send_hooks dc (pre @ (py ''_minecraft'', hook) # rest) name av txt =
     (minecraft_sends pre name av txt @ [WebhookSend hook name av txt], False)"
  by (induction pre) (auto simp: minecraft_sends_def)

lemma send_channels_fails:
  "send_hooks dc hooks name av txt = (es, False) \<Longrightarrow> webhooks_of dc c = Some hooks \<Longrightarrow>
   send_channels dc (c # rest) name av txt = (es, Some DiscordException)"
  by simp

text \<open>
  C7, as the code has it. The fan-out has no handler around the single post. A post
  that the endpoint answers, with whatever status, is followed by the posts to the
  remaining webhooks: when no post raises, every webhook is posted to, in order. A post
  that raises ends the loop: the webhooks after it are not attempted (on the game side
  with \<open>requests.post\<close>, on the chat side with \<open>webhook.send\<close>, where the channels after
  the failing one are not attempted either).
\<close>

theorem fan_out_until_a_post_raises:
  "((\<forall>w\<in>set ws. post ev w \<noteq> Fails) \<longrightarrow>
      post_all ev ws p = (map (\<lambda>w. Post w p) ws, True)) \<and>
   ((\<forall>x\<in>set pre. post ev x \<noteq> Fails) \<and> post ev w = Fails \<longrightarrow>
      post_all ev (pre @ w # rest) p = (map (\<lambda>w. Post w p) (pre @ [w]), False)) \<and>
   ((\<forall>(n, h)\<in>set hooks. n = py ''_minecraft'' \<longrightarrow> send_ok dc h) \<and> \<not> send_ok dc hook \<and>
    webhooks_of dc c = Some (hooks @ (py ''_minecraft'', hook) # others) \<longrightarrow>
      send_channels dc (c # cs) name av txt =
        (minecraft_sends hooks name av txt @ [WebhookSend hook name av txt],
         Some DiscordException))"
proof (intro conjI impI)
  assume "\<forall>w\<in>set ws. post ev w \<noteq> Fails"
  then show "post_all ev ws p = (map (\<lambda>w. Post w p) ws, True)" by (rule post_all_ok)
next
  assume "(\<forall>x\<in>set pre. post ev x \<noteq> Fails) \<and> post ev w = Fails"
  then show "post_all ev (pre @ w # rest) p = (map (\<lambda>w. Post w p) (pre @ [w]), False)"
    by (simp add: post_all_fails)
next
  assume a: "(\<forall>(n, h)\<in>set hooks. n = py ''_minecraft'' \<longrightarrow> send_ok dc h) \<and> \<not> send_ok dc hook \<and>
    webhooks_of dc c = Some (hooks @ (py ''_minecraft'', hook) # others)"
  then have a1: "\<forall>(n, h)\<in>set hooks. n = py ''_minecraft'' \<longrightarrow> send_ok dc h"
    and a2: "\<not> send_ok dc hook"
    and a3: "webhooks_of dc c = Some (hooks @ (py ''_minecraft'', hook) # others)"
    by simp_all
  note h = send_hooks_fails [OF a1 a2, of others name av "txt"]
  show "send_channels dc (c # cs) name av txt =
        (minecraft_sends hooks name av txt @ [WebhookSend hook name av txt],
         Some DiscordException)"
    by (rule send_channels_fails [OF h a3])
qed

lemma ex_down_join:
  "handle_tab_list ex_cfg ex_env_down ex_active [AddPlayerAction (py ''Bob'') (py ''u-bob'')] =
     (ex_active\<lparr>PLAYER_LIST := [(py ''u-alice'', py ''Alice''), (py ''u-bob'', py ''Bob'')],
                UUID_CACHE := [(py ''u-alice'', py ''Alice''), (py ''u-bob'', py ''Bob'')]\<rparr>,
      [Post (py ''hook1'') (join_payload (py ''Bob'') (py ''u-bob''))],
      Raised RequestException)"
  by (simp add: ex_defs ex_env_down_def handle_action_def add_player_def bd_defs py_def)

text \<open>
  Against C7 as stated: the first of the two webhooks cannot be reached. The second,
  which would answer, is not posted to: the join notification is lost for it, and the
  handler raises.
\<close>

theorem failed_post_skips_remaining:
  "WEBHOOKS ex_active = [py ''hook1'', py ''hook2''] \<and>
   post ex_env_down (py ''hook1'') = Fails \<and>
   post ex_env_down (py ''hook2'') = Response 204 \<and>
   handle_tab_list ex_cfg ex_env_down ex_active [AddPlayerAction (py ''Bob'') (py ''u-bob'')] =
     (ex_active\<lparr>PLAYER_LIST := [(py ''u-alice'', py ''Alice''), (py ''u-bob'', py ''Bob'')],
                UUID_CACHE := [(py ''u-alice'', py ''Alice''), (py ''u-bob'', py ''Bob'')]\<rparr>,
      [Post (py ''hook1'') (join_payload (py ''Bob'') (py ''u-bob''))],
      Raised RequestException)"
  using ex_down_join by (simp add: ex_defs ex_env_down_def py_def)

theorem fan_out_until_a_post_raises_witness:
  "post ex_env_500 (py ''hook1'') = Response 500 \<and>
   post ex_env_500 (py ''hook2'') = Response 204 \<and>
   post_all ex_env_500 [py ''hook1'', py ''hook2''] (join_payload (py ''Bob'') (py ''u-bob'')) =
     ([Post (py ''hook1'') (join_payload (py ''Bob'') (py ''u-bob'')),
       Post (py ''hook2'') (join_payload (py ''Bob'') (py ''u-bob''))], True) \<and>
   post ex_env_down (py ''hook1'') = Fails \<and>
   post_all ex_env_down ([] @ py ''hook1'' # [py ''hook2'']) (join_payload (py ''Bob'') (py ''u-bob'')) =
     ([Post (py ''hook1'') (join_payload (py ''Bob'') (py ''u-bob''))], False) \<and>
   \<not> send_ok ex_discord_down 1 \<and>
   webhooks_of ex_discord_down 1 = Some ([] @ (py ''_minecraft'', 1) # []) \<and>
   send_channels ex_discord_down (1 # [2]) (py ''Alice'') (avatar (py ''u-alice'')) (py ''hi'') =
     ([WebhookSend 1 (py ''Alice'') (avatar (py ''u-alice'')) (py ''hi'')], Some DiscordException)"
proof -
  have 1: "\<forall>w\<in>set [py ''hook1'', py ''hook2'']. post ex_env_500 w \<noteq> Fails"
    by (simp add: ex_env_500_def ex_env_def py_def)
  have 2: "(\<forall>x\<in>set []. post ex_env_down x \<noteq> Fails) \<and> post ex_env_down (py ''hook1'') = Fails"
    by (simp add: ex_env_down_def ex_env_def py_def)
  have 3: "(\<forall>(n, h)\<in>set []. n = py ''_minecraft'' \<longrightarrow> send_ok ex_discord_down h) \<and>
     \<not> send_ok ex_discord_down 1 \<and>
     webhooks_of ex_discord_down 1 = Some ([] @ (py ''_minecraft'', 1) # [])"
    by (simp add: ex_discord_down_def)
  have 4: "post ex_env_500 (py ''hook1'') = Response 500"
    by (simp add: ex_env_500_def ex_env_def py_def)
  have 5: "post ex_env_500 (py ''hook2'') = Response 204"
    by (simp add: ex_env_500_def ex_env_def py_def)
  note t1 = fan_out_until_a_post_raises [of "[py ''hook1'', py ''hook2'']" ex_env_500
      "join_payload (py ''Bob'') (py ''u-bob'')" "[]" "py ''hook1''" "[py ''hook2'']" "[]"
      ex_discord_down 1 1 "[]" "[2]" "py ''Alice''" "avatar (py ''u-alice'')" "py ''hi''"]
  note t2 = fan_out_until_a_post_raises [of "[]" ex_env_down
      "join_payload (py ''Bob'') (py ''u-bob'')" "[]" "py ''hook1''" "[py ''hook2'']" "[]"
      ex_discord_down 1 1 "[]" "[2]" "py ''Alice''" "avatar (py ''u-alice'')" "py ''hi''"]
  from t1 1 have a: "post_all ex_env_500 [py ''hook1'', py ''hook2''] (join_payload (py ''Bob'') (py ''u-bob'')) =
     ([Post (py ''hook1'') (join_payload (py ''Bob'') (py ''u-bob'')),
       Post (py ''hook2'') (join_payload (py ''Bob'') (py ''u-bob''))], True)"
    by simp
  from t2 2 have b: "post_all ex_env_down ([] @ py ''hook1'' # [py ''hook2'']) (join_payload (py ''Bob'') (py ''u-bob'')) =
     ([Post (py ''hook1'') (join_payload (py ''Bob'') (py ''u-bob''))], False)"
    by simp
  from t2 3 have c: "send_channels ex_discord_down (1 # [2]) (py ''Alice'') (avatar (py ''u-alice'')) (py ''hi'') =
     ([WebhookSend 1 (py ''Alice'') (avatar (py ''u-alice'')) (py ''hi'')], Some DiscordException)"
    by (simp add: minecraft_sends_def del: send_channels.simps)
  from 2 3 4 5 a b c show ?thesis by (intro conjI) (erule conjE | assumption)+
qed

lemma log_raw_analytics: "log_raw pkt = (es, out) \<Longrightarrow> e \<in> set es \<Longrightarrow> is_analytics e"
  by (auto simp: log_raw_def split: if_splits)

lemma analytics_not_post: "is_analytics e \<Longrightarrow> \<not> is_post e"
  by (cases e) auto

text \<open>
  C8. A chat packet of the shape \<open><name> text\<close> whose name is, letter case aside, the
  bridge's own account name is posted to no webhook: every effect of the handler is an
  entry of the analytics log.
\<close>

theorem own_chat_not_relayed:
  assumes "extra pkt = Some components" and "chat_text components = Some chat_string"
    and "match_chat chat_string = Some (username, original_message)"
    and "lower username = lower (BOT_USERNAME s)"
  shows "filter is_post (effects_of (handle_chat cfg ev s pkt)) = [] \<and>
         (\<forall>e\<in>set (effects_of (handle_chat cfg ev s pkt)). is_analytics e)"
proof -
  have "\<forall>e\<in>set (effects_of (handle_chat cfg ev s pkt)). is_analytics e"
    using assms
    by (auto simp: handle_chat_def effects_of_def Let_def
        split: prod.splits option.splits dest: log_raw_analytics)
  then show ?thesis
    using analytics_not_post by (auto simp: filter_empty_conv)
qed

lemma ex_own_chat_text:
  "chat_text [Some (py ''<bridge> ''), Some (py ''Alice: hi'')] = Some (py ''<bridge> Alice: hi'')"
  by (simp add: py_def)

lemma ex_own_chat_match:
  "match_chat (py ''<bridge> Alice: hi'') = Some (py ''bridge'', py ''Alice: hi'')"
  by (simp add: match_chat_def py_def)

lemma ex_own_chat_run:
  "handle_chat ex_cfg ex_env ex_active ex_own_chat =
     (ex_active,
      [LogChatMessage (Some (py ''u-alice'')) (py ''Alice'') (py ''hi'') (py ''<bridge> Alice: hi''), LogRawMessage 0],
      Returned)"
  by (simp add: handle_chat_def ex_own_chat_def ex_defs match_chat_def match_bot_def
      mc_username_to_uuid_def bd_defs lower_def lower_cp_def log_raw_def py_def)

theorem own_chat_not_relayed_witness:
  "extra ex_own_chat = Some [Some (py ''<bridge> ''), Some (py ''Alice: hi'')] \<and>
   chat_text [Some (py ''<bridge> ''), Some (py ''Alice: hi'')] = Some (py ''<bridge> Alice: hi'') \<and>
   match_chat (py ''<bridge> Alice: hi'') = Some (py ''bridge'', py ''Alice: hi'') \<and>
   lower (py ''bridge'') = lower (BOT_USERNAME ex_active) \<and>
   effects_of (handle_chat ex_cfg ex_env ex_active ex_own_chat) =
     [LogChatMessage (Some (py ''u-alice'')) (py ''Alice'') (py ''hi'') (py ''<bridge> Alice: hi''), LogRawMessage 0] \<and>
   filter is_post (effects_of (handle_chat ex_cfg ex_env ex_active ex_own_chat)) = []"
proof -
  have 1: "extra ex_own_chat = Some [Some (py ''<bridge> ''), Some (py ''Alice: hi'')]"
    by (simp add: ex_own_chat_def)
  have 4: "lower (py ''bridge'') = lower (BOT_USERNAME ex_active)"
    by (simp add: ex_defs lower_def lower_cp_def py_def)
  have 5: "effects_of (handle_chat ex_cfg ex_env ex_active ex_own_chat) =
     [LogChatMessage (Some (py ''u-alice'')) (py ''Alice'') (py ''hi'') (py ''<bridge> Alice: hi''), LogRawMessage 0]"
    unfolding ex_own_chat_run effects_of_def by simp
  from own_chat_not_relayed [OF 1 ex_own_chat_text ex_own_chat_match 4, of ex_cfg ex_env]
  have "filter is_post (effects_of (handle_chat ex_cfg ex_env ex_active ex_own_chat)) = []"
    by (rule conjunct1)
  with 1 ex_own_chat_text ex_own_chat_match 4 5 show ?thesis by (intro conjI)
qed

section \<open>Properties of the identity cache\<close>



lemma map_of_bd_None: "\<not> bd_mem k b \<Longrightarrow> map_of b k = None"
  by (simp add: bd_mem_def bd_keys_def map_of_eq_None_iff)

























section \<open>Properties of the relay to the game\<close>

lemma send_hooks_carries:
  "send_hooks dc hooks name av d = (es, ok) \<Longrightarrow> \<forall>e\<in>set es. carries g d e"
  by (induction hooks arbitrary: es ok) (auto split: if_splits prod.splits)

lemma send_channels_carries:
  "send_channels dc cs name av d = (es, r) \<Longrightarrow> \<forall>e\<in>set es. carries g d e"
proof (induction cs arbitrary: es r)
  case Nil
  then show ?case by simp
next
  case (Cons c cs)
  show ?case
  proof (cases "webhooks_of dc c")
    case None
    with Cons.prems show ?thesis by simp
  next
    case (Some hooks)
    obtain es1 ok where h: "send_hooks dc hooks name av d = (es1, ok)"
      by (cases "send_hooks dc hooks name av d") auto
    note c1 = send_hooks_carries [OF h, of g]
    show ?thesis
    proof (cases ok)
      case False
      with Cons.prems Some h c1 show ?thesis by simp
    next
      case True
      obtain es2 r2 where s: "send_channels dc cs name av d = (es2, r2)"
        by (cases "send_channels dc cs name av d") auto
      from Cons.IH [OF s] c1 Cons.prems Some h True s show ?thesis by auto
    qed
  qed
qed

lemma private_reply_carries: "\<forall>e\<in>set (private_reply dc m msg). carries g d e"
  by (simp add: private_reply_def)

lemma fit_message_over:
  "length name + 2 \<le> 256 \<Longrightarrow> 256 < length name + 2 + length a \<Longrightarrow>
   fit_message name a b =
     Some (take (256 - (length name + 2)) a, take (256 - (length name + 2)) b)"
  by (simp add: fit_message_def slice_to_def Let_def nat_diff_distrib' add.commute
      del: of_nat_add) 

lemma fit_message_empty: "length name + 2 \<le> 256 \<Longrightarrow> fit_message name [] b = None"
  by (simp add: fit_message_def Let_def)

lemma relay_carries:
  assumes "mc_uuid_to_username ev (UUID_CACHE s) minecraft_uuid = (cache, Some name)"
    and "ascii_replace (clean_content m) = Some ascii"
    and "fit_message name (strip (remove_emoji ascii)) (escape_markdown (clean_content m)) =
           Some (a, b)"
  shows "\<forall>e\<in>set (effects_of (relay cfg ev dc db s m minecraft_uuid)).
           carries (name @ py '': '' @ a) b e"
proof (cases "rate_limited dc (s\<lparr>UUID_CACHE := cache\<rparr>) a")
  case True
  with assms show ?thesis
    by (simp add: relay_def effects_of_def private_reply_carries)
next
  case False
  obtain es r where c: "send_channels dc (channels db) name (avatar minecraft_uuid) b = (es, r)"
    by (cases "send_channels dc (channels db) name (avatar minecraft_uuid) b") auto
  note k = send_channels_carries [OF c, of "name @ py '': '' @ a"]
  from assms False c k show ?thesis
    by (cases r) (simp_all add: relay_def effects_of_def Let_def)
qed


text \<open>
  C5. A message of a linked account reaches the length check, and the name of the
  sender leaves room under the ceiling (game account names have at most 16
  characters). If the normalized text with the prefix \<open>name: \<close> is longer than 256
  characters, both forms are cut at the same index, 256 minus the length of the prefix;
  every chat packet the handler writes is the prefix and the cut text, every send
  through a webhook has the cut display form as content, and neither is longer than
  256 characters. If the normalized text is empty, the handler only deletes the
  incoming message: it relays nothing and replies nothing.
\<close>

theorem over_budget_message_is_cut:
  assumes "\<not> author_is_bridge m" and "take 3 (content m) \<noteq> py ''mc!''" and "\<not> author_bot m"
    and "channel_should_chat db" and "discord_user db = Some (Some minecraft_uuid)"
    and "mc_uuid_to_username ev (UUID_CACHE s) minecraft_uuid = (cache, Some name)"
    and "ascii_replace (clean_content m) = Some ascii"
    and "length name + 2 \<le> 256"
  shows "(256 < length name + 2 + length (strip (remove_emoji ascii)) \<longrightarrow>
           fit_message name (strip (remove_emoji ascii)) (escape_markdown (clean_content m)) =
             Some (take (256 - (length name + 2)) (strip (remove_emoji ascii)),
                   take (256 - (length name + 2)) (escape_markdown (clean_content m))) \<and>
           (\<forall>e\<in>set (effects_of (on_message cfg ev dc db s m)).
              carries
                (name @ py '': '' @ take (256 - (length name + 2)) (strip (remove_emoji ascii)))
                (take (256 - (length name + 2)) (escape_markdown (clean_content m))) e) \<and>
           length (name @ py '': '' @ take (256 - (length name + 2)) (strip (remove_emoji ascii)))
             \<le> 256 \<and>
           length (take (256 - (length name + 2)) (escape_markdown (clean_content m))) \<le> 256) \<and>
         (strip (remove_emoji ascii) = [] \<longrightarrow>
           on_message cfg ev dc db s m = (s\<lparr>UUID_CACHE := cache\<rparr>, [DeleteMessage], Returned))"
proof (intro conjI impI)
  let ?a = "strip (remove_emoji ascii)" and ?b = "escape_markdown (clean_content m)"
  let ?k = "256 - (length name + 2)"
  have om: "on_message cfg ev dc db s m =
      (case relay cfg ev dc db s m minecraft_uuid of (s', es, out) \<Rightarrow> (s', DeleteMessage # es, out))"
    using assms(1-5) by (simp add: on_message_def)
  {
    assume over: "256 < length name + 2 + length ?a"
    show f: "fit_message name ?a ?b = Some (take ?k ?a, take ?k ?b)"
      using assms(8) over by (rule fit_message_over)
    note r = relay_carries [OF assms(6) assms(7) f, of cfg dc db]
    show "\<forall>e\<in>set (effects_of (on_message cfg ev dc db s m)).
            carries (name @ py '': '' @ take ?k ?a) (take ?k ?b) e"
      using r by (auto simp: om effects_of_def split: prod.splits)
    show "length (name @ py '': '' @ take ?k ?a) \<le> 256"
      using assms(8) by (simp add: py_def)
    show "length (take ?k ?b) \<le> 256" by simp
  }
  {
    assume "?a = []"
    then have "fit_message name ?a ?b = None"
      using assms(8) by (simp add: fit_message_empty)
    then have "relay cfg ev dc db s m minecraft_uuid = (s\<lparr>UUID_CACHE := cache\<rparr>, [], Returned)"
      using assms(6) assms(7) by (simp add: relay_def)
    then show "on_message cfg ev dc db s m = (s\<lparr>UUID_CACHE := cache\<rparr>, [DeleteMessage], Returned)"
      by (simp add: om)
  }
qed

lemma remove_emoji_letters: "remove_emoji (replicate n 97) = replicate n 97"
  by (induction n) (simp_all add: remove_emoji_def is_emoji_def)

lemma strip_letters: "strip (replicate n 97) = replicate n 97"
proof -
  have "dropWhile py_isspace (replicate n 97) = replicate n 97"
    by (cases n) (simp_all add: py_isspace_def)
  then show ?thesis by (simp add: strip_def)
qed

lemma ascii_replace_letters: "ascii_replace (replicate n 97) = Some (replicate n 97)"
proof -
  have "concat (map (\<lambda>c. if c < 0x80 then [c] else replicate (utf8_len c) 65533)
          (replicate n (97::nat))) = replicate n 97"
    by (induction n) simp_all
  then show ?thesis by (simp add: ascii_replace_def list_ex_iff is_surrogate_def)
qed


lemma ex_alice_name:
  "mc_uuid_to_username ex_env (UUID_CACHE ex_active) (py ''u-alice'') =
     (UUID_CACHE ex_active, Some (py ''Alice''))"
  by (simp add: mc_uuid_to_username_def ex_defs bd_mem_def bd_keys_def bd_get_def)

lemma ex_long_run:
  "on_message ex_cfg ex_env ex_discord ex_store ex_active ex_long_message =
     (ex_active\<lparr>PREVIOUS_MESSAGE := replicate 249 97, NEXT_MESSAGE_TIME := 5000011\<rparr>,
      [DeleteMessage,
       WebhookSend 1 (py ''Alice'') (avatar (py ''u-alice'')) (replicate 249 97),
       WebhookSend 2 (py ''Alice'') (avatar (py ''u-alice'')) (replicate 249 97),
       WritePacket (py ''Alice'' @ py '': '' @ replicate 249 97)],
      Returned)"
proof -
  have e: "escape_markdown (replicate 300 97) = replicate 300 97"
  proof -
    have "\<And>n c new. c \<noteq> 97 \<Longrightarrow> replace_char c new (replicate n 97) = replicate n 97"
      subgoal for n c new by (induction n) (simp_all add: replace_char_def)
      done
    then show ?thesis by (simp add: escape_markdown_def)
  qed
  have l: "length (py ''Alice'') = 5" by (simp add: py_def)
  have f: "fit_message (py ''Alice'') (replicate 300 97) (replicate 300 97) =
             Some (replicate 249 97, replicate 249 97)"
    by (simp add: fit_message_def slice_to_def l Let_def)
  have n: "replicate 249 97 \<noteq> ([]::nat list)" by simp
  have c: "send_channels ex_discord [1, 2] (py ''Alice'') (avatar (py ''u-alice'')) (replicate 249 97) =
       ([WebhookSend 1 (py ''Alice'') (avatar (py ''u-alice'')) (replicate 249 97),
         WebhookSend 2 (py ''Alice'') (avatar (py ''u-alice'')) (replicate 249 97)], None)"
    by (simp add: ex_discord_def)
  have r: "relay ex_cfg ex_env ex_discord ex_store ex_active ex_long_message (py ''u-alice'') =
     (ex_active\<lparr>PREVIOUS_MESSAGE := replicate 249 97, NEXT_MESSAGE_TIME := 5000011\<rparr>,
      [WebhookSend 1 (py ''Alice'') (avatar (py ''u-alice'')) (replicate 249 97),
       WebhookSend 2 (py ''Alice'') (avatar (py ''u-alice'')) (replicate 249 97),
       WritePacket (py ''Alice'' @ py '': '' @ replicate 249 97)],
      Returned)"
    unfolding relay_def ex_alice_name
    using n
    by (simp add: ex_long_message_def ascii_replace_letters remove_emoji_letters strip_letters
        e f rate_limited_def ex_store_def c Let_def)
       (simp add: ex_defs ex_discord_def)
  have t: "take 3 (replicate 300 (97::nat)) \<noteq> py ''mc!''" by (simp add: py_def numeral_3_eq_3)
  have fields: "author_is_bridge ex_long_message = False" "author_bot ex_long_message = False"
    "content ex_long_message = replicate 300 97" "channel_should_chat ex_store = True"
    "discord_user ex_store = Some (Some (py ''u-alice''))"
    by (simp_all add: ex_long_message_def ex_store_def)
  show ?thesis
    using t by (simp add: on_message_def fields r)
qed

lemma ex_blank_text: "strip (remove_emoji (py ''   '')) = []"
  by (simp add: strip_def remove_emoji_def is_emoji_def py_isspace_def py_def)

lemma ex_blank_ascii: "ascii_replace (py ''   '') = Some (py ''   '')"
  by (simp add: ascii_replace_def is_surrogate_def py_def)

theorem over_budget_message_is_cut_witness:
  "\<not> author_is_bridge ex_long_message \<and> take 3 (content ex_long_message) \<noteq> py ''mc!'' \<and>
   \<not> author_bot ex_long_message \<and> channel_should_chat ex_store \<and>
   discord_user ex_store = Some (Some (py ''u-alice'')) \<and>
   mc_uuid_to_username ex_env (UUID_CACHE ex_active) (py ''u-alice'') =
     (UUID_CACHE ex_active, Some (py ''Alice'')) \<and>
   ascii_replace (clean_content ex_long_message) = Some (replicate 300 97) \<and>
   length (py ''Alice'') + 2 \<le> 256 \<and>
   256 < length (py ''Alice'') + 2 + length (strip (remove_emoji (replicate 300 97))) \<and>
   WritePacket (py ''Alice'' @ py '': '' @ replicate 249 97) \<in>
     set (effects_of (on_message ex_cfg ex_env ex_discord ex_store ex_active ex_long_message)) \<and>
   carries
     (py ''Alice'' @ py '': '' @
      take (256 - (length (py ''Alice'') + 2)) (strip (remove_emoji (replicate 300 97))))
     (take (256 - (length (py ''Alice'') + 2)) (escape_markdown (clean_content ex_long_message)))
     (WritePacket (py ''Alice'' @ py '': '' @ replicate 249 97)) \<and>
   length (py ''Alice'' @ py '': '' @ replicate 249 97) = 256 \<and>
   \<not> author_is_bridge ex_blank_message \<and> take 3 (content ex_blank_message) \<noteq> py ''mc!'' \<and>
   \<not> author_bot ex_blank_message \<and>
   ascii_replace (clean_content ex_blank_message) = Some (py ''   '') \<and>
   strip (remove_emoji (py ''   '')) = [] \<and>
   on_message ex_cfg ex_env ex_discord ex_store ex_active ex_blank_message =
     (ex_active\<lparr>UUID_CACHE := UUID_CACHE ex_active\<rparr>, [DeleteMessage], Returned)"
proof -
  have 1: "\<not> author_is_bridge ex_long_message" and 3: "\<not> author_bot ex_long_message"
    by (simp_all add: ex_long_message_def)
  have 2: "take 3 (content ex_long_message) \<noteq> py ''mc!''"
    by (simp add: ex_long_message_def py_def numeral_3_eq_3)
  have 4: "channel_should_chat ex_store"
    and 5: "discord_user ex_store = Some (Some (py ''u-alice''))"
    by (simp_all add: ex_store_def)
  have 7: "ascii_replace (clean_content ex_long_message) = Some (replicate 300 97)"
    by (simp add: ex_long_message_def ascii_replace_letters)
  have 8: "length (py ''Alice'') + 2 \<le> 256" by (simp add: py_def)
  have 9: "256 < length (py ''Alice'') + 2 + length (strip (remove_emoji (replicate 300 97)))"
    by (simp add: remove_emoji_letters strip_letters)
  have w: "WritePacket (py ''Alice'' @ py '': '' @ replicate 249 97) \<in>
     set (effects_of (on_message ex_cfg ex_env ex_discord ex_store ex_active ex_long_message))"
    unfolding ex_long_run effects_of_def by simp
  have l: "length (py ''Alice'' @ py '': '' @ replicate 249 97) = 256" by (simp add: py_def)
  have b1: "\<not> author_is_bridge ex_blank_message" and b3: "\<not> author_bot ex_blank_message"
    by (simp_all add: ex_blank_message_def)
  have b2: "take 3 (content ex_blank_message) \<noteq> py ''mc!''"
    by (simp add: ex_blank_message_def py_def)
  have b7: "ascii_replace (clean_content ex_blank_message) = Some (py ''   '')"
    by (simp add: ex_blank_message_def ex_blank_ascii)
  note t1 = over_budget_message_is_cut [OF 1 2 3 4 5 ex_alice_name 7 8, of ex_cfg ex_discord]
  note t2 = over_budget_message_is_cut [OF b1 b2 b3 4 5 ex_alice_name b7 8, of ex_cfg ex_discord]
  from t1 9 w have c: "carries
     (py ''Alice'' @ py '': '' @
      take (256 - (length (py ''Alice'') + 2)) (strip (remove_emoji (replicate 300 97))))
     (take (256 - (length (py ''Alice'') + 2)) (escape_markdown (clean_content ex_long_message)))
     (WritePacket (py ''Alice'' @ py '': '' @ replicate 249 97))"
    by fast
  from t2 ex_blank_text have d: "on_message ex_cfg ex_env ex_discord ex_store ex_active ex_blank_message =
     (ex_active\<lparr>UUID_CACHE := UUID_CACHE ex_active\<rparr>, [DeleteMessage], Returned)"
    by (rule_tac conjunct2 [THEN mp])
  from 1 2 3 4 5 ex_alice_name 7 8 9 w c l b1 b2 b3 b7 ex_blank_text d
  show ?thesis by (intro conjI)
qed

lemma mc_uuid_to_username_again:
  assumes "mc_uuid_to_username ev cache uuid = (cache', Some name)"
  shows "mc_uuid_to_username ev' cache' uuid = (cache', Some name)"
proof (cases "bd_mem uuid cache")
  case True
  with assms show ?thesis by (auto simp: mc_uuid_to_username_def)
next
  case False
  then have n: "map_of cache uuid = None" by (rule map_of_bd_None)
  from assms False have "bd_put cache uuid name = Inr cache'"
    by (auto simp: mc_uuid_to_username_def split: option.splits sum.splits)
  with n have c: "cache' = cache @ [(uuid, name)]"
    by (auto simp: bd_put_def split: option.splits)
  have "bd_mem uuid cache'" by (simp add: c bd_mem_def bd_keys_def)
  moreover have "bd_get cache' uuid = Some name"
    by (simp add: c bd_get_def map_add_Some_iff n)
  ultimately show ?thesis by (simp add: mc_uuid_to_username_def)
qed

lemma send_hooks_no_reply:
  "send_hooks dc hooks name av d = (es, ok) \<Longrightarrow> \<forall>e\<in>set es. \<not> is_reply e"
  by (induction hooks arbitrary: es ok) (auto split: if_splits prod.splits)

lemma send_channels_no_reply:
  "send_channels dc cs name av d = (es, r) \<Longrightarrow> \<forall>e\<in>set es. \<not> is_reply e"
proof (induction cs arbitrary: es r)
  case Nil
  then show ?case by simp
next
  case (Cons c cs)
  show ?case
  proof (cases "webhooks_of dc c")
    case None
    with Cons.prems show ?thesis by simp
  next
    case (Some hooks)
    obtain es1 ok where h: "send_hooks dc hooks name av d = (es1, ok)"
      by (cases "send_hooks dc hooks name av d") auto
    note c1 = send_hooks_no_reply [OF h]
    show ?thesis
    proof (cases ok)
      case False
      with Cons.prems Some h c1 show ?thesis by simp
    next
      case True
      obtain es2 r2 where s: "send_channels dc cs name av d = (es2, r2)"
        by (cases "send_channels dc cs name av d") auto
      from Cons.IH [OF s] c1 Cons.prems Some h True s show ?thesis by auto
    qed
  qed
qed

lemma private_reply_is_reply: "\<exists>e. private_reply dc m msg = [e] \<and> is_reply e"
  by (simp add: private_reply_def)

lemma on_message_linked:
  assumes "\<not> author_is_bridge m" and "take 3 (content m) \<noteq> py ''mc!''" and "\<not> author_bot m"
    and "channel_should_chat db" and "discord_user db = Some (Some minecraft_uuid)"
  shows "on_message cfg ev dc db s m =
      (case relay cfg ev dc db s m minecraft_uuid of (s', es, out) \<Rightarrow> (s', DeleteMessage # es, out))"
  using assms by (simp add: on_message_def)

lemma relay_at_gate:
  assumes "mc_uuid_to_username ev (UUID_CACHE s) minecraft_uuid = (cache, Some name)"
    and "ascii_replace (clean_content m) = Some ascii"
    and "fit_message name (strip (remove_emoji ascii)) (escape_markdown (clean_content m)) =
           Some (t, d)"
  shows "relay cfg ev dc db s m minecraft_uuid =
     (if rate_limited dc (s\<lparr>UUID_CACHE := cache\<rparr>) t then
        (s\<lparr>UUID_CACHE := cache\<rparr>, private_reply dc m (rate_limited_text m), Returned)
      else
        (case send_channels dc (channels db) name (avatar minecraft_uuid) d of
           (es, Some e) \<Rightarrow>
             (s\<lparr>UUID_CACHE := cache, PREVIOUS_MESSAGE := t,
                NEXT_MESSAGE_TIME := now_relay dc + message_delay cfg\<rparr>, es, Raised e)
         | (es, None) \<Rightarrow>
             (s\<lparr>UUID_CACHE := cache, PREVIOUS_MESSAGE := t,
                NEXT_MESSAGE_TIME := now_relay dc + message_delay cfg\<rparr>,
              es @ [WritePacket (name @ py '': '' @ t)], Returned)))"
  using assms by (simp add: relay_def Let_def split: prod.splits option.splits)


text \<open>
  C3, as the code has it. Two messages of a linked account reach the gate with the same
  normalized text. The first is blocked exactly when its text equals the last relayed
  text or the clock is before the next allowed time; when it is not blocked and no send
  raises, it is relayed: the display form goes to the webhooks, the chat packet is
  written, and the text and the next allowed time are stored. From then on the second
  message is blocked with the rate-limited reply at every time, also after the delay:
  its text equals the stored text.
\<close>

theorem identical_message_stays_blocked:
  assumes "\<not> author_is_bridge m1" and "take 3 (content m1) \<noteq> py ''mc!''" and "\<not> author_bot m1"
    and "\<not> author_is_bridge m2" and "take 3 (content m2) \<noteq> py ''mc!''" and "\<not> author_bot m2"
    and "channel_should_chat db" and "discord_user db = Some (Some minecraft_uuid)"
    and "mc_uuid_to_username ev (UUID_CACHE s) minecraft_uuid = (cache, Some name)"
    and "ascii_replace (clean_content m1) = Some ascii1"
    and "fit_message name (strip (remove_emoji ascii1)) (escape_markdown (clean_content m1)) =
           Some (t, d1)"
    and "ascii_replace (clean_content m2) = Some ascii2"
    and "fit_message name (strip (remove_emoji ascii2)) (escape_markdown (clean_content m2)) =
           Some (t, d2)"
  shows "((on_message cfg ev dc1 db s m1 =
            (s\<lparr>UUID_CACHE := cache\<rparr>,
             DeleteMessage # private_reply dc1 m1 (rate_limited_text m1), Returned)) =
          (t = PREVIOUS_MESSAGE s \<or> now_gate dc1 < NEXT_MESSAGE_TIME s)) \<and>
         (t \<noteq> PREVIOUS_MESSAGE s \<and> \<not> now_gate dc1 < NEXT_MESSAGE_TIME s \<and>
          send_channels dc1 (channels db) name (avatar minecraft_uuid) d1 = (es, None) \<longrightarrow>
            on_message cfg ev dc1 db s m1 =
              (s\<lparr>UUID_CACHE := cache, PREVIOUS_MESSAGE := t,
                 NEXT_MESSAGE_TIME := now_relay dc1 + message_delay cfg\<rparr>,
               DeleteMessage # es @ [WritePacket (name @ py '': '' @ t)], Returned)) \<and>
         on_message cfg ev2 dc2 db
             (s\<lparr>UUID_CACHE := cache, PREVIOUS_MESSAGE := t,
                NEXT_MESSAGE_TIME := now_relay dc1 + message_delay cfg\<rparr>) m2 =
           (s\<lparr>UUID_CACHE := cache, PREVIOUS_MESSAGE := t,
              NEXT_MESSAGE_TIME := now_relay dc1 + message_delay cfg\<rparr>,
            DeleteMessage # private_reply dc2 m2 (rate_limited_text m2), Returned)"
proof (intro conjI)
  let ?s1 = "s\<lparr>UUID_CACHE := cache\<rparr>"
  let ?s2 = "s\<lparr>UUID_CACHE := cache, PREVIOUS_MESSAGE := t,
                NEXT_MESSAGE_TIME := now_relay dc1 + message_delay cfg\<rparr>"
  note o1 = on_message_linked [OF assms(1) assms(2) assms(3) assms(7) assms(8), of cfg ev dc1 s]
  note r1 = relay_at_gate [OF assms(9) assms(10) assms(11), of cfg dc1 db]
  have g: "rate_limited dc1 ?s1 t = (t = PREVIOUS_MESSAGE s \<or> now_gate dc1 < NEXT_MESSAGE_TIME s)"
    by (simp add: rate_limited_def)
  obtain es1 r where c: "send_channels dc1 (channels db) name (avatar minecraft_uuid) d1 = (es1, r)"
    by (cases "send_channels dc1 (channels db) name (avatar minecraft_uuid) d1") auto
  obtain e where p: "private_reply dc1 m1 (rate_limited_text m1) = [e]" and ir: "is_reply e"
    using private_reply_is_reply by blast
  show "(on_message cfg ev dc1 db s m1 =
            (?s1, DeleteMessage # private_reply dc1 m1 (rate_limited_text m1), Returned)) =
          (t = PREVIOUS_MESSAGE s \<or> now_gate dc1 < NEXT_MESSAGE_TIME s)"
  proof (cases "rate_limited dc1 ?s1 t")
    case True
    with g show ?thesis by (simp add: o1 r1)
  next
    case False
    have "on_message cfg ev dc1 db s m1 \<noteq> (?s1, DeleteMessage # [e], Returned)"
    proof (cases r)
      case None
      have "es1 @ [WritePacket (name @ py '': '' @ t)] \<noteq> [e]"
        using ir by (cases es1) auto
      with False c None show ?thesis by (simp add: o1 r1)
    next
      case (Some x)
      with False c show ?thesis by (simp add: o1 r1)
    qed
    with False g p show ?thesis by simp
  qed
  show "t \<noteq> PREVIOUS_MESSAGE s \<and> \<not> now_gate dc1 < NEXT_MESSAGE_TIME s \<and>
          send_channels dc1 (channels db) name (avatar minecraft_uuid) d1 = (es, None) \<longrightarrow>
            on_message cfg ev dc1 db s m1 =
              (?s2, DeleteMessage # es @ [WritePacket (name @ py '': '' @ t)], Returned)"
    using g by (simp add: o1 r1)
  have u2: "mc_uuid_to_username ev2 (UUID_CACHE ?s2) minecraft_uuid = (cache, Some name)"
    using mc_uuid_to_username_again [OF assms(9), of ev2] by simp
  note o2 = on_message_linked [OF assms(4) assms(5) assms(6) assms(7) assms(8), of cfg ev2 dc2 ?s2]
  note r2 = relay_at_gate [OF u2 assms(12) assms(13), of cfg dc2 db]
  show "on_message cfg ev2 dc2 db ?s2 m2 =
           (?s2, DeleteMessage # private_reply dc2 m2 (rate_limited_text m2), Returned)"
    by (simp add: o2 r2 rate_limited_def)
qed


lemma ex_hi_fit:
  "fit_message (py ''Alice'') (strip (remove_emoji (py ''hi''))) (escape_markdown (py ''hi'')) =
     Some (py ''hi'', py ''hi'')"
  by (simp add: fit_message_def strip_def remove_emoji_def is_emoji_def py_isspace_def
      escape_markdown_def replace_char_def py_def)

lemma ex_hi_ascii: "ascii_replace (clean_content ex_hi) = Some (py ''hi'')"
  by (simp add: ex_hi_def ascii_replace_def is_surrogate_def py_def)

lemma ex_hi_sends:
  "send_channels ex_discord (channels ex_store) (py ''Alice'') (avatar (py ''u-alice'')) (py ''hi'') =
     ([WebhookSend 1 (py ''Alice'') (avatar (py ''u-alice'')) (py ''hi''),
       WebhookSend 2 (py ''Alice'') (avatar (py ''u-alice'')) (py ''hi'')], None)"
  by (simp add: ex_discord_def ex_store_def)

lemma ex_hi_fields:
  "\<not> author_is_bridge ex_hi" "take 3 (content ex_hi) \<noteq> py ''mc!''" "\<not> author_bot ex_hi"
  "channel_should_chat ex_store" "discord_user ex_store = Some (Some (py ''u-alice''))"
  by (simp_all add: ex_hi_def ex_store_def py_def)

lemma ex_hi_first:
  "on_message ex_cfg ex_env ex_discord ex_store ex_active ex_hi =
     (ex_relayed,
      [DeleteMessage,
       WebhookSend 1 (py ''Alice'') (avatar (py ''u-alice'')) (py ''hi''),
       WebhookSend 2 (py ''Alice'') (avatar (py ''u-alice'')) (py ''hi''),
       WritePacket (py ''Alice'' @ py '': '' @ py ''hi'')],
      Returned)"
proof -
  note r = relay_at_gate [OF ex_alice_name, of ex_hi "py ''hi''" "py ''hi''" "py ''hi''"
      ex_cfg ex_discord ex_store, unfolded ex_hi_sends]
  have h: "clean_content ex_hi = py ''hi''" by (simp add: ex_hi_def)
  have g: "\<not> rate_limited ex_discord (ex_active\<lparr>UUID_CACHE := UUID_CACHE ex_active\<rparr>) (py ''hi'')"
    by (simp add: rate_limited_def ex_defs ex_discord_def py_def)
  have s: "ex_active\<lparr>UUID_CACHE := UUID_CACHE ex_active, PREVIOUS_MESSAGE := py ''hi'',
             NEXT_MESSAGE_TIME := now_relay ex_discord + message_delay ex_cfg\<rparr> = ex_relayed"
    by (simp add: ex_relayed_def ex_discord_def ex_cfg_def)
  from r ex_hi_ascii ex_hi_fit g s
  have "relay ex_cfg ex_env ex_discord ex_store ex_active ex_hi (py ''u-alice'') =
     (ex_relayed,
      [WebhookSend 1 (py ''Alice'') (avatar (py ''u-alice'')) (py ''hi''),
       WebhookSend 2 (py ''Alice'') (avatar (py ''u-alice'')) (py ''hi''),
       WritePacket (py ''Alice'' @ py '': '' @ py ''hi'')],
      Returned)"
    by (simp add: h)
  then show ?thesis
    by (simp add: on_message_linked [OF ex_hi_fields])
qed

lemma ex_relayed_name:
  "mc_uuid_to_username ex_env (UUID_CACHE ex_relayed) (py ''u-alice'') =
     (UUID_CACHE ex_relayed, Some (py ''Alice''))"
  using ex_alice_name by (simp add: ex_relayed_def)

lemma ex_hi_second:
  "on_message ex_cfg ex_env ex_discord_later ex_store ex_relayed ex_hi =
     (ex_relayed, [DeleteMessage, Reply (rate_limited_text ex_hi)], Returned)"
proof -
  note r = relay_at_gate [OF ex_relayed_name, of ex_hi "py ''hi''" "py ''hi''" "py ''hi''"
      ex_cfg ex_discord_later ex_store]
  have h: "clean_content ex_hi = py ''hi''" by (simp add: ex_hi_def)
  have g: "rate_limited ex_discord_later (ex_relayed\<lparr>UUID_CACHE := UUID_CACHE ex_relayed\<rparr>) (py ''hi'')"
    by (simp add: rate_limited_def ex_relayed_def)
  have p: "private_reply ex_discord_later ex_hi (rate_limited_text ex_hi) =
             [Reply (rate_limited_text ex_hi)]"
    by (simp add: private_reply_def ex_discord_later_def ex_discord_def)
  from r ex_hi_ascii ex_hi_fit g p
  have "relay ex_cfg ex_env ex_discord_later ex_store ex_relayed ex_hi (py ''u-alice'') =
     (ex_relayed, [Reply (rate_limited_text ex_hi)], Returned)"
    by (simp add: h)
  then show ?thesis
    by (simp add: on_message_linked [OF ex_hi_fields])
qed

text \<open>
  Against C3 as stated: \<open>hi\<close> is relayed at time 11 with a delay of five seconds. The
  same message long after the delay is not relayed again: it gets the rate-limited
  reply, and no chat packet is written.
\<close>

theorem identical_message_blocked_after_delay:
  "on_message ex_cfg ex_env ex_discord ex_store ex_active ex_hi =
     (ex_relayed,
      [DeleteMessage,
       WebhookSend 1 (py ''Alice'') (avatar (py ''u-alice'')) (py ''hi''),
       WebhookSend 2 (py ''Alice'') (avatar (py ''u-alice'')) (py ''hi''),
       WritePacket (py ''Alice'' @ py '': '' @ py ''hi'')],
      Returned) \<and>
   NEXT_MESSAGE_TIME ex_relayed = now_relay ex_discord + message_delay ex_cfg \<and>
   NEXT_MESSAGE_TIME ex_relayed < now_gate ex_discord_later \<and>
   on_message ex_cfg ex_env ex_discord_later ex_store ex_relayed ex_hi =
     (ex_relayed, [DeleteMessage, Reply (rate_limited_text ex_hi)], Returned)"
  using ex_hi_first ex_hi_second
  by (simp add: ex_relayed_def ex_discord_later_def ex_discord_def ex_cfg_def)

theorem identical_message_stays_blocked_witness:
  "\<not> author_is_bridge ex_hi \<and> take 3 (content ex_hi) \<noteq> py ''mc!'' \<and> \<not> author_bot ex_hi \<and>
   channel_should_chat ex_store \<and> discord_user ex_store = Some (Some (py ''u-alice'')) \<and>
   mc_uuid_to_username ex_env (UUID_CACHE ex_active) (py ''u-alice'') =
     (UUID_CACHE ex_active, Some (py ''Alice'')) \<and>
   ascii_replace (clean_content ex_hi) = Some (py ''hi'') \<and>
   fit_message (py ''Alice'') (strip (remove_emoji (py ''hi''))) (escape_markdown (clean_content ex_hi)) =
     Some (py ''hi'', py ''hi'') \<and>
   py ''hi'' \<noteq> PREVIOUS_MESSAGE ex_active \<and>
   \<not> now_gate ex_discord < NEXT_MESSAGE_TIME ex_active \<and>
   send_channels ex_discord (channels ex_store) (py ''Alice'') (avatar (py ''u-alice'')) (py ''hi'') =
     ([WebhookSend 1 (py ''Alice'') (avatar (py ''u-alice'')) (py ''hi''),
       WebhookSend 2 (py ''Alice'') (avatar (py ''u-alice'')) (py ''hi'')], None) \<and>
   on_message ex_cfg ex_env ex_discord ex_store ex_active ex_hi \<noteq>
     (ex_active\<lparr>UUID_CACHE := UUID_CACHE ex_active\<rparr>,
      DeleteMessage # private_reply ex_discord ex_hi (rate_limited_text ex_hi), Returned) \<and>
   on_message ex_cfg ex_env ex_discord ex_store ex_active ex_hi =
     (ex_active\<lparr>UUID_CACHE := UUID_CACHE ex_active, PREVIOUS_MESSAGE := py ''hi'',
        NEXT_MESSAGE_TIME := now_relay ex_discord + message_delay ex_cfg\<rparr>,
      DeleteMessage #
      [WebhookSend 1 (py ''Alice'') (avatar (py ''u-alice'')) (py ''hi''),
       WebhookSend 2 (py ''Alice'') (avatar (py ''u-alice'')) (py ''hi'')] @
      [WritePacket (py ''Alice'' @ py '': '' @ py ''hi'')], Returned) \<and>
   on_message ex_cfg ex_env ex_discord_later ex_store
       (ex_active\<lparr>UUID_CACHE := UUID_CACHE ex_active, PREVIOUS_MESSAGE := py ''hi'',
          NEXT_MESSAGE_TIME := now_relay ex_discord + message_delay ex_cfg\<rparr>) ex_hi =
     (ex_active\<lparr>UUID_CACHE := UUID_CACHE ex_active, PREVIOUS_MESSAGE := py ''hi'',
        NEXT_MESSAGE_TIME := now_relay ex_discord + message_delay ex_cfg\<rparr>,
      DeleteMessage # private_reply ex_discord_later ex_hi (rate_limited_text ex_hi), Returned)"
proof -
  have f: "fit_message (py ''Alice'') (strip (remove_emoji (py ''hi'')))
             (escape_markdown (clean_content ex_hi)) = Some (py ''hi'', py ''hi'')"
    using ex_hi_fit by (simp add: ex_hi_def)
  have p: "py ''hi'' \<noteq> PREVIOUS_MESSAGE ex_active" by (simp add: ex_defs py_def)
  have n: "\<not> now_gate ex_discord < NEXT_MESSAGE_TIME ex_active"
    by (simp add: ex_defs ex_discord_def)
  note t = identical_message_stays_blocked [OF ex_hi_fields(1-3) ex_hi_fields(1-3)
      ex_hi_fields(4,5) ex_alice_name ex_hi_ascii f ex_hi_ascii f,
      of ex_cfg ex_discord
      "[WebhookSend 1 (py ''Alice'') (avatar (py ''u-alice'')) (py ''hi''),
        WebhookSend 2 (py ''Alice'') (avatar (py ''u-alice'')) (py ''hi'')]"
      ex_env ex_discord_later]
  note t1 = t [THEN conjunct1]
  note b = t [THEN conjunct2, THEN conjunct1, THEN mp, OF conjI [OF p conjI [OF n ex_hi_sends]]]
  note c = t [THEN conjunct2, THEN conjunct2]
  have a: "on_message ex_cfg ex_env ex_discord ex_store ex_active ex_hi \<noteq>
     (ex_active\<lparr>UUID_CACHE := UUID_CACHE ex_active\<rparr>,
      DeleteMessage # private_reply ex_discord ex_hi (rate_limited_text ex_hi), Returned)"
  proof (rule notI)
    assume e: "on_message ex_cfg ex_env ex_discord ex_store ex_active ex_hi =
     (ex_active\<lparr>UUID_CACHE := UUID_CACHE ex_active\<rparr>,
      DeleteMessage # private_reply ex_discord ex_hi (rate_limited_text ex_hi), Returned)"
    from t1 [THEN iffD1, OF e] show False
    proof (rule disjE)
      assume "py ''hi'' = PREVIOUS_MESSAGE ex_active"
      with p show False by (rule notE)
    next
      assume "now_gate ex_discord < NEXT_MESSAGE_TIME ex_active"
      with n show False by (rule notE)
    qed
  qed
  from ex_hi_fields ex_alice_name ex_hi_ascii f p n ex_hi_sends a b c
  show ?thesis by (intro conjI)
qed

end
